theory Spec2Isabelle
  imports Main "HOL-Library.AList" "HOL-Library.Word"
begin

section \<open>The screeps exporter: data model\<close>

text \<open>
  The repository holds two revisions of \<^verbatim>\<open>main.go\<close>. The first one (the segment
  exporter) polls the account summary, the market orders and one memory segment per
  configured shard; the second one (the history exporter) polls the whole memory of one
  shard, a base64 and gzip encoded blob holding a history of snapshots. Names of the second
  revision that clash with the first carry the suffix \<open>_gz\<close>.

  A \<^verbatim>\<open>float64\<close> is the type variable \<open>'f\<close>: the code never computes with one, it only
  carries it from a decoded response to a gauge. A Go map read by a \<^verbatim>\<open>range\<close> loop is the
  list of its entries in the order the loop visits them (Go leaves that order open, so
  every theorem holds for every order). An \<^verbatim>\<open>error\<close> is its message.
\<close>

type_synonym error = string

record 'f AuthMeResponse =
  Money :: 'f
  CPUShard :: "(string \<times> 'f) list"
  Resources :: "(string \<times> 'f) list"

record 'f MarketOrder =
  Active :: bool
  Type :: string
  Amount :: 'f
  RemainingAmount :: 'f
  ResourceType :: string
  Price :: 'f
  TotalAmount :: 'f
  RoomName :: string

record 'f MarketOrdersResponse =
  Shards :: "(string \<times> 'f MarketOrder list) list"

record 'f MemoryResponse =
  Ok :: 'f
  Data :: string

record 'f Cpu =
  Used :: 'f
  Limit :: 'f
  Bucket :: 'f

record 'f Progress =
  Level :: 'f
  Progress :: 'f
  ProgressTotal :: 'f

record 'f Room =
  RCL :: "'f Progress"
  Structures :: "(string \<times> 'f) list"
  Creeps :: 'f
  EnergyAvailable :: 'f
  EnergyCapacityAvailable :: 'f
  Storage :: "(string \<times> 'f) list"
  Terminal :: "(string \<times> 'f) list"

record 'f Stats =
  Tick :: 'f
  Ms :: 'f
  LastGlobalResetTick :: 'f
  LastGlobalResetMs :: 'f
  CPU :: "'f Cpu"
  GCL :: "'f Progress"
  GPL :: "'f Progress"
  Rooms :: "(string \<times> 'f Room) list"

text \<open>The zero value of \<^verbatim>\<open>Stats\<close>, which a Go map returns for a key it does not hold.\<close>

definition zero_Progress :: "('f::zero) Progress" where
  "zero_Progress = \<lparr>Level = 0, Progress = 0, ProgressTotal = 0\<rparr>"

definition zero_Stats :: "('f::zero) Stats" where
  "zero_Stats = \<lparr>Tick = 0, Ms = 0, LastGlobalResetTick = 0, LastGlobalResetMs = 0,
     CPU = \<lparr>Used = 0, Limit = 0, Bucket = 0\<rparr>, GCL = zero_Progress, GPL = zero_Progress,
     Rooms = []\<rparr>"

section \<open>The metric store\<close>

text \<open>
  The gauge vectors and the histogram are the package level variables of \<^verbatim>\<open>main.go\<close>.
  A series of a gauge is named by its label set, written as the source writes it
  (\<^verbatim>\<open>prometheus.Labels{"shard": shard, "type": "used"}\<close>): every call on one gauge lists the
  same label names in the same order, so equal lists are equal label sets.
\<close>

datatype gauge =
  cpuShard | resources | marketOrders | tick | ms | resetTick | resetMs | cpu | gcl | gpl
  | rcl | energy | creeps | structures | storage | terminal

type_synonym Labels = "(string \<times> string) list"

definition prefix :: string where
  "prefix = ''screeps_''"

fun Name :: "gauge \<Rightarrow> string" where
  "Name cpuShard = prefix @ ''cpu_shard''"
| "Name resources = prefix @ ''resources''"
| "Name marketOrders = prefix @ ''market_orders''"
| "Name tick = prefix @ ''tick''"
| "Name ms = prefix @ ''ms''"
| "Name resetTick = prefix @ ''global_reset_tick''"
| "Name resetMs = prefix @ ''global_reset_ms''"
| "Name cpu = prefix @ ''cpu''"
| "Name gcl = prefix @ ''gcl''"
| "Name gpl = prefix @ ''gpl''"
| "Name rcl = prefix @ ''rcl''"
| "Name energy = prefix @ ''energy''"
| "Name creeps = prefix @ ''creeps''"
| "Name structures = prefix @ ''structures''"
| "Name storage = prefix @ ''storage''"
| "Name terminal = prefix @ ''terminal''"

text \<open>
  The three calls the exporter makes on the store: \<^verbatim>\<open>g.Reset()\<close>,
  \<^verbatim>\<open>g.With(labels).Set(v)\<close> and \<^verbatim>\<open>processingDuration.Observe(v)\<close>.
\<close>

datatype 'f call = Reset gauge | WithSet gauge Labels 'f | Observe 'f

record 'f Store =
  gauges :: "gauge \<Rightarrow> Labels \<rightharpoonup> 'f"
  histogram :: "'f list"

fun exec_call :: "'f call \<Rightarrow> 'f Store \<Rightarrow> 'f Store" where
  "exec_call (Reset g) st = st\<lparr>gauges := (gauges st)(g := Map.empty)\<rparr>"
| "exec_call (WithSet g l v) st = st\<lparr>gauges := (gauges st)(g := (gauges st g)(l \<mapsto> v))\<rparr>"
| "exec_call (Observe v) st = st\<lparr>histogram := histogram st @ [v]\<rparr>"

definition exec :: "'f call list \<Rightarrow> 'f Store \<Rightarrow> 'f Store" where
  "exec cs st = fold exec_call cs st"

text \<open>
  What a cycle leaves behind: the store, the lines printed by \<^verbatim>\<open>fmt.Println(err)\<close> and
  the URLs requested from the game server.
\<close>

record 'f world =
  store :: "'f Store"
  stdout :: "error list"
  requests :: "string list"

section \<open>The segment exporter\<close>

text \<open>
  The configuration (\<open>shards\<close>, \<open>segment\<close>, \<open>token\<close>) and what lies outside the
  repository: the game server as \<open>client_Do\<close> (from the URL and the \<^verbatim>\<open>X-Token\<close> header to
  the response body or a transport error, \<^verbatim>\<open>http.NewRequest\<close> included), the decoders of
  \<^verbatim>\<open>encoding/json\<close> at the four types they are used at, and the clock read by
  \<^verbatim>\<open>time.Since(start).Seconds()\<close>. One \<open>env\<close> describes one cycle; a URL asked twice in
  one cycle (a shard listed twice) gets the same answer.
\<close>

record 'f env =
  shards :: "string list"
  segment :: string
  token :: string
  client_Do :: "string \<Rightarrow> string \<Rightarrow> error + string"
  decode_AuthMeResponse :: "string \<Rightarrow> error + 'f AuthMeResponse"
  decode_MarketOrdersResponse :: "string \<Rightarrow> error + 'f MarketOrdersResponse"
  decode_MemoryResponse :: "string \<Rightarrow> error + 'f MemoryResponse"
  unmarshal_Stats :: "string \<Rightarrow> error + 'f Stats"
  since_start :: 'f

text \<open>
  Each fetch returns its result and the URLs it requested.
\<close>

definition auth_me_url :: string where
  "auth_me_url = ''https://screeps.com/api/auth/me''"

definition my_orders_url :: string where
  "my_orders_url = ''https://screeps.com/api/game/market/my-orders''"

definition memory_segment_url :: "'f env \<Rightarrow> string \<Rightarrow> string" where
  "memory_segment_url env shard =
     ''https://screeps.com/api/user/memory-segment?segment='' @ segment env @ ''&shard='' @ shard"

definition getStatsFromAuthMe :: "'f env \<Rightarrow> (error + 'f AuthMeResponse) \<times> string list" where
  "getStatsFromAuthMe env =
     ((case client_Do env auth_me_url (token env) of
         Inl err \<Rightarrow> Inl err
       | Inr body \<Rightarrow>
           (case decode_AuthMeResponse env body of
              Inl err \<Rightarrow> Inl err
            | Inr parsed \<Rightarrow> Inr parsed)),
      [auth_me_url])"

definition getMarketOrders :: "'f env \<Rightarrow> (error + 'f MarketOrdersResponse) \<times> string list" where
  "getMarketOrders env =
     ((case client_Do env my_orders_url (token env) of
         Inl err \<Rightarrow> Inl err
       | Inr body \<Rightarrow>
           (case decode_MarketOrdersResponse env body of
              Inl err \<Rightarrow> Inl err
            | Inr parsed \<Rightarrow> Inr parsed)),
      [my_orders_url])"

definition getStatsFromMemorySegment :: "'f env \<Rightarrow> string \<Rightarrow> (error + 'f Stats) \<times> string list" where
  "getStatsFromMemorySegment env shard =
     ((case client_Do env (memory_segment_url env shard) (token env) of
         Inl err \<Rightarrow> Inl err
       | Inr body \<Rightarrow>
           (case decode_MemoryResponse env body of
              Inl err \<Rightarrow> Inl err
            | Inr memoryResponse \<Rightarrow>
                (case unmarshal_Stats env (Data memoryResponse) of
                   Inl err \<Rightarrow> Inl err
                 | Inr parsed \<Rightarrow> Inr parsed))),
      [memory_segment_url env shard])"

text \<open>
  The first loop of \<^verbatim>\<open>updateStats\<close>: it fills \<^verbatim>\<open>statsMap\<close> shard by shard and leaves
  the function at the first error.
\<close>

type_synonym 'f statsMap = "(string \<times> 'f Stats) list"

fun fetchShards :: "'f env \<Rightarrow> string list \<Rightarrow> 'f statsMap \<Rightarrow> (error + 'f statsMap) \<times> string list" where
  "fetchShards env [] statsMap = (Inr statsMap, [])"
| "fetchShards env (shard # rest) statsMap =
     (case getStatsFromMemorySegment env shard of
        (Inl err, urls) \<Rightarrow> (Inl err, urls)
      | (Inr stats, urls) \<Rightarrow>
          (case fetchShards env rest (AList.update shard stats statsMap) of
             (r, urls') \<Rightarrow> (r, urls @ urls')))"

definition index :: "('f::zero) statsMap \<Rightarrow> string \<Rightarrow> 'f Stats" where
  "index statsMap shard = (case map_of statsMap shard of Some stats \<Rightarrow> stats | None \<Rightarrow> zero_Stats)"

text \<open>The calls on the store, in the order of the source.\<close>

definition resets :: "'f call list" where
  "resets = [Reset cpuShard, Reset resources, Reset marketOrders, Reset rcl, Reset energy,
     Reset creeps, Reset structures, Reset storage, Reset terminal]"

definition cpuShard_calls :: "'f AuthMeResponse \<Rightarrow> 'f call list" where
  "cpuShard_calls authMe =
     map (\<lambda>(shard, amount). WithSet cpuShard [(''shard'', shard)] amount) (CPUShard authMe)"

definition resources_calls :: "'f AuthMeResponse \<Rightarrow> 'f call list" where
  "resources_calls authMe =
     WithSet resources [(''shard'', ''intershard''), (''type'', ''money'')] (Money authMe)
     # map (\<lambda>(typ, amount). WithSet resources [(''shard'', ''intershard''), (''type'', typ)] amount)
         (Resources authMe)"

definition order_calls :: "string \<Rightarrow> 'f MarketOrder \<Rightarrow> 'f call list" where
  "order_calls shard order =
     [WithSet marketOrders [(''shard'', shard), (''room'', RoomName order), (''type'', ResourceType order),
        (''order_type'', Type order), (''metric'', ''price'')] (Price order),
      WithSet marketOrders [(''shard'', shard), (''room'', RoomName order), (''type'', ResourceType order),
        (''order_type'', Type order), (''metric'', ''amount'')] (Amount order),
      WithSet marketOrders [(''shard'', shard), (''room'', RoomName order), (''type'', ResourceType order),
        (''order_type'', Type order), (''metric'', ''remainingAmount'')] (RemainingAmount order),
      WithSet marketOrders [(''shard'', shard), (''room'', RoomName order), (''type'', ResourceType order),
        (''order_type'', Type order), (''metric'', ''totalAmount'')] (TotalAmount order)]"

definition marketOrders_calls :: "'f MarketOrdersResponse \<Rightarrow> 'f call list" where
  "marketOrders_calls orders =
     concat (map (\<lambda>(shard, orders). concat (map (order_calls shard) orders)) (Shards orders))"

definition room_calls :: "string \<Rightarrow> string \<Rightarrow> 'f Room \<Rightarrow> 'f call list" where
  "room_calls shard name room =
     [WithSet rcl [(''shard'', shard), (''room'', name), (''type'', ''level'')] (Level (RCL room)),
      WithSet rcl [(''shard'', shard), (''room'', name), (''type'', ''progress'')] (Progress (RCL room)),
      WithSet rcl [(''shard'', shard), (''room'', name), (''type'', ''progressTotal'')] (ProgressTotal (RCL room)),
      WithSet energy [(''shard'', shard), (''room'', name), (''type'', ''available'')] (EnergyAvailable room),
      WithSet energy [(''shard'', shard), (''room'', name), (''type'', ''capacityAvailable'')]
        (EnergyCapacityAvailable room),
      WithSet creeps [(''shard'', shard), (''room'', name)] (Creeps room)]
     @ map (\<lambda>(structureType, count).
          WithSet structures [(''shard'', shard), (''room'', name), (''type'', structureType)] count)
         (Structures room)
     @ map (\<lambda>(resourceType, amount).
          WithSet storage [(''shard'', shard), (''room'', name), (''type'', resourceType)] amount)
         (Storage room)
     @ map (\<lambda>(resourceType, amount).
          WithSet terminal [(''shard'', shard), (''room'', name), (''type'', resourceType)] amount)
         (Terminal room)"

definition shard_calls :: "string \<Rightarrow> 'f Stats \<Rightarrow> 'f call list" where
  "shard_calls shard stats =
     [WithSet tick [(''shard'', shard)] (Tick stats),
      WithSet ms [(''shard'', shard)] (Ms stats),
      WithSet resetTick [(''shard'', shard)] (LastGlobalResetTick stats),
      WithSet resetMs [(''shard'', shard)] (LastGlobalResetMs stats),
      WithSet cpu [(''shard'', shard), (''type'', ''used'')] (Used (CPU stats)),
      WithSet cpu [(''shard'', shard), (''type'', ''limit'')] (Limit (CPU stats)),
      WithSet cpu [(''shard'', shard), (''type'', ''bucket'')] (Bucket (CPU stats)),
      WithSet gcl [(''shard'', shard), (''type'', ''level'')] (Level (GCL stats)),
      WithSet gcl [(''shard'', shard), (''type'', ''progress'')] (Progress (GCL stats)),
      WithSet gcl [(''shard'', shard), (''type'', ''progressTotal'')] (ProgressTotal (GCL stats)),
      WithSet gpl [(''shard'', shard), (''type'', ''level'')] (Level (GPL stats)),
      WithSet gpl [(''shard'', shard), (''type'', ''progress'')] (Progress (GPL stats)),
      WithSet gpl [(''shard'', shard), (''type'', ''progressTotal'')] (ProgressTotal (GPL stats))]
     @ concat (map (\<lambda>(name, room). room_calls shard name room) (Rooms stats))"

definition shards_calls :: "string list \<Rightarrow> ('f::zero) statsMap \<Rightarrow> 'f call list" where
  "shards_calls configured statsMap =
     concat (map (\<lambda>shard. shard_calls shard (index statsMap shard)) configured)"

definition publish :: "('f::zero) env \<Rightarrow> 'f AuthMeResponse \<Rightarrow> 'f MarketOrdersResponse \<Rightarrow> 'f statsMap
    \<Rightarrow> 'f call list" where
  "publish env authMe orders statsMap =
     resets @ cpuShard_calls authMe @ resources_calls authMe @ marketOrders_calls orders
     @ shards_calls (shards env) statsMap @ [Observe (since_start env)]"

definition Println :: "error \<Rightarrow> string list \<Rightarrow> 'f world \<Rightarrow> 'f world" where
  "Println err urls w = w\<lparr>stdout := stdout w @ [err], requests := requests w @ urls\<rparr>"

definition updateStats :: "('f::zero) env \<Rightarrow> 'f world \<Rightarrow> 'f world" where
  "updateStats env w =
     (case getStatsFromAuthMe env of
        (Inl err, urls1) \<Rightarrow> Println err urls1 w
      | (Inr authMe, urls1) \<Rightarrow>
          (case getMarketOrders env of
             (Inl err, urls2) \<Rightarrow> Println err (urls1 @ urls2) w
           | (Inr orders, urls2) \<Rightarrow>
               (case fetchShards env (shards env) [] of
                  (Inl err, urls3) \<Rightarrow> Println err (urls1 @ urls2 @ urls3) w
                | (Inr statsMap, urls3) \<Rightarrow>
                    w\<lparr>store := exec (publish env authMe orders statsMap) (store w),
                      requests := requests w @ urls1 @ urls2 @ urls3\<rparr>)))"

text \<open>
  \<^verbatim>\<open>main\<close> fixes the configuration, creates the gauges and the histogram empty and then
  calls \<^verbatim>\<open>updateStats\<close> once a minute, for ever. \<open>startup\<close> is the world before the
  first cycle; a run is the list of the environments of its cycles, first cycle first.
\<close>

definition startup :: "'f world" where
  "startup = \<lparr>store = \<lparr>gauges = (\<lambda>g. Map.empty), histogram = []\<rparr>, stdout = [], requests = []\<rparr>"

fun run :: "('f::zero) env list \<Rightarrow> 'f world \<Rightarrow> 'f world" where
  "run [] w = w"
| "run (env # envs) w = run envs (updateStats env w)"

section \<open>The history exporter\<close>

text \<open>
  The second revision decodes integers where the first decodes floats: \<^verbatim>\<open>uint64\<close> and
  \<^verbatim>\<open>int64\<close> are 64 bit words, turned into a \<^verbatim>\<open>float64\<close> by the conversions
  \<^verbatim>\<open>float64(x)\<close> of the language, which the environment supplies. \<^verbatim>\<open>Cpu\<close> is the
  struct of the first revision.
\<close>

record MemoryResponse_gz =
  Ok_gz :: "64 word"
  Data_gz :: string

record 'f Progress_gz =
  Level_gz :: "64 word"
  Progress_gz :: 'f
  ProgressTotal_gz :: 'f

record 'f Room_gz =
  RCL_gz :: "'f Progress_gz"
  Structures_gz :: "(string \<times> 64 word) list"
  Creeps_gz :: "64 word"
  EnergyAvailable_gz :: 'f
  EnergyCapacityAvailable_gz :: 'f
  Storage_gz :: "(string \<times> 64 word) list"

record 'f Stats_gz =
  Tick_gz :: "64 word"
  Ms_gz :: "64 word"
  CPU_gz :: "'f Cpu"
  GCL_gz :: "'f Progress_gz"
  GPL_gz :: "'f Progress_gz"
  Rooms_gz :: "(string \<times> 'f Room_gz) list"

text \<open>\<^verbatim>\<open>Memory\<close> has the one field \<^verbatim>\<open>Stats.History\<close>.\<close>

record 'f Memory =
  Stats_History :: "'f Stats_gz list"

text \<open>
  The environment of one cycle: the configuration (\<open>shard_gz\<close>, \<open>token_gz\<close>), the game
  server, and the library calls \<^verbatim>\<open>json.NewDecoder(resp.Body).Decode\<close>,
  \<^verbatim>\<open>base64.StdEncoding.DecodeString\<close>, \<^verbatim>\<open>gzip.NewReader\<close> (which checks the header and
  returns a reader \<open>'r\<close>) and \<^verbatim>\<open>json.NewDecoder(r).Decode\<close> (which reads the decompressed
  stream and fails on a corrupt stream as on a bad document).
\<close>

record ('f, 'r) env_gz =
  shard_gz :: string
  token_gz :: string
  client_Do_gz :: "string \<Rightarrow> string \<Rightarrow> error + string"
  decode_MemoryResponse_gz :: "string \<Rightarrow> error + MemoryResponse_gz"
  base64_DecodeString :: "string \<Rightarrow> error + string"
  gzip_NewReader :: "string \<Rightarrow> error + 'r"
  decode_Memory :: "'r \<Rightarrow> error + 'f Memory"
  float64_of_uint64 :: "64 word \<Rightarrow> 'f"
  float64_of_int64 :: "64 word \<Rightarrow> 'f"
  since_start_gz :: 'f

text \<open>\<^verbatim>\<open>strings.HasPrefix\<close> and \<^verbatim>\<open>strings.TrimPrefix\<close>.\<close>

definition HasPrefix :: "string \<Rightarrow> string \<Rightarrow> bool" where
  "HasPrefix s p = (length s \<ge> length p \<and> take (length p) s = p)"

definition TrimPrefix :: "string \<Rightarrow> string \<Rightarrow> string" where
  "TrimPrefix s p = (if HasPrefix s p then drop (length p) s else s)"

text \<open>
  A function of the second revision either returns or panics; the panic of an index out
  of range ends the process, since \<^verbatim>\<open>updateStats\<close> runs in a goroutine that does not
  recover.
\<close>

datatype 'a outcome = Returns 'a | Panics string

definition memory_url :: "('f, 'r) env_gz \<Rightarrow> string" where
  "memory_url env = ''https://screeps.com/api/user/memory?shard='' @ shard_gz env"

text \<open>
  Lines 556 to 575 of \<^verbatim>\<open>updateStats\<close>: from the \<^verbatim>\<open>data\<close> field of the response to the
  current snapshot, \<^verbatim>\<open>memory.Stats.History[len(memory.Stats.History)-1]\<close>. The result is
  an error to print, or the snapshot.
\<close>

definition current_stats :: "('f, 'r) env_gz \<Rightarrow> string \<Rightarrow> (error + 'f Stats_gz) outcome" where
  "current_stats env field =
     (let data = TrimPrefix field ''gz:'' in
      case base64_DecodeString env data of
        Inl err \<Rightarrow> Returns (Inl err)
      | Inr z \<Rightarrow>
          (case gzip_NewReader env z of
             Inl err \<Rightarrow> Returns (Inl err)
           | Inr r \<Rightarrow>
               (case decode_Memory env r of
                  Inl err \<Rightarrow> Returns (Inl err)
                | Inr memory \<Rightarrow>
                    (let i = int (length (Stats_History memory)) - 1 in
                     if 0 \<le> i \<and> i < int (length (Stats_History memory))
                     then Returns (Inr (Stats_History memory ! nat i))
                     else Panics ''runtime error: index out of range [-1]''))))"

definition room_calls_gz :: "('f, 'r) env_gz \<Rightarrow> string \<Rightarrow> 'f Room_gz \<Rightarrow> 'f call list" where
  "room_calls_gz env name room =
     [WithSet rcl [(''shard'', shard_gz env), (''room'', name), (''type'', ''level'')]
        (float64_of_int64 env (Level_gz (RCL_gz room))),
      WithSet rcl [(''shard'', shard_gz env), (''room'', name), (''type'', ''progress'')]
        (Progress_gz (RCL_gz room)),
      WithSet rcl [(''shard'', shard_gz env), (''room'', name), (''type'', ''progressTotal'')]
        (ProgressTotal_gz (RCL_gz room)),
      WithSet energy [(''shard'', shard_gz env), (''room'', name), (''type'', ''available'')]
        (EnergyAvailable_gz room),
      WithSet energy [(''shard'', shard_gz env), (''room'', name), (''type'', ''capacityAvailable'')]
        (EnergyCapacityAvailable_gz room),
      WithSet creeps [(''shard'', shard_gz env), (''room'', name)] (float64_of_int64 env (Creeps_gz room))]
     @ map (\<lambda>(structureType, count).
          WithSet structures [(''shard'', shard_gz env), (''room'', name), (''type'', structureType)]
            (float64_of_int64 env count))
         (Structures_gz room)
     @ map (\<lambda>(resourceType, amount).
          WithSet storage [(''shard'', shard_gz env), (''room'', name), (''type'', resourceType)]
            (float64_of_int64 env amount))
         (Storage_gz room)"

definition publish_gz :: "('f, 'r) env_gz \<Rightarrow> 'f Stats_gz \<Rightarrow> 'f call list" where
  "publish_gz env stats =
     [WithSet tick [(''shard'', shard_gz env)] (float64_of_uint64 env (Tick_gz stats)),
      WithSet ms [(''shard'', shard_gz env)] (float64_of_uint64 env (Ms_gz stats)),
      WithSet cpu [(''shard'', shard_gz env), (''type'', ''used'')] (Used (CPU_gz stats)),
      WithSet cpu [(''shard'', shard_gz env), (''type'', ''limit'')] (Limit (CPU_gz stats)),
      WithSet cpu [(''shard'', shard_gz env), (''type'', ''bucket'')] (Bucket (CPU_gz stats)),
      WithSet gcl [(''shard'', shard_gz env), (''type'', ''level'')]
        (float64_of_int64 env (Level_gz (GCL_gz stats))),
      WithSet gcl [(''shard'', shard_gz env), (''type'', ''progress'')] (Progress_gz (GCL_gz stats)),
      WithSet gcl [(''shard'', shard_gz env), (''type'', ''progressTotal'')]
        (ProgressTotal_gz (GCL_gz stats)),
      WithSet gpl [(''shard'', shard_gz env), (''type'', ''level'')]
        (float64_of_int64 env (Level_gz (GPL_gz stats))),
      WithSet gpl [(''shard'', shard_gz env), (''type'', ''progress'')] (Progress_gz (GPL_gz stats)),
      WithSet gpl [(''shard'', shard_gz env), (''type'', ''progressTotal'')]
        (ProgressTotal_gz (GPL_gz stats)),
      Reset rcl, Reset energy, Reset creeps, Reset structures, Reset storage]
     @ concat (map (\<lambda>(name, room). room_calls_gz env name room) (Rooms_gz stats))
     @ [Observe (since_start_gz env)]"

definition updateStats_gz :: "('f, 'r) env_gz \<Rightarrow> 'f world \<Rightarrow> 'f world outcome" where
  "updateStats_gz env w =
     (case client_Do_gz env (memory_url env) (token_gz env) of
        Inl err \<Rightarrow> Returns (Println err [memory_url env] w)
      | Inr body \<Rightarrow>
          (case decode_MemoryResponse_gz env body of
             Inl err \<Rightarrow> Returns (Println err [memory_url env] w)
           | Inr memoryResponse \<Rightarrow>
               (case current_stats env (Data_gz memoryResponse) of
                  Panics msg \<Rightarrow> Panics msg
                | Returns (Inl err) \<Rightarrow> Returns (Println err [memory_url env] w)
                | Returns (Inr stats) \<Rightarrow>
                    Returns (w\<lparr>store := exec (publish_gz env stats) (store w),
                               requests := requests w @ [memory_url env]\<rparr>))))"

text \<open>
  The fetch and decode steps of the second revision's \<^verbatim>\<open>updateStats\<close>, up to the current
  snapshot.
\<close>

definition fetch_gz :: "('f, 'r) env_gz \<Rightarrow> (error + 'f Stats_gz) outcome" where
  "fetch_gz env =
     (case client_Do_gz env (memory_url env) (token_gz env) of
        Inl err \<Rightarrow> Returns (Inl err)
      | Inr body \<Rightarrow>
          (case decode_MemoryResponse_gz env body of
             Inl err \<Rightarrow> Returns (Inl err)
           | Inr memoryResponse \<Rightarrow> current_stats env (Data_gz memoryResponse)))"

section \<open>The compressed history in the words of the specification\<close>

text \<open>
  The decoder as the specification words it: strip the marker \<^verbatim>\<open>gz:\<close> if present,
  base64-decode, gzip-decompress, JSON-decode into a \<^verbatim>\<open>Memory\<close>, and take the last element
  of its history. It is defined when every step succeeds and the history has an element.
\<close>

definition strip_marker :: "string \<Rightarrow> string" where
  "strip_marker field =
     (case field of
        a # b # c # rest \<Rightarrow> if a = CHR ''g'' \<and> b = CHR ''z'' \<and> c = CHR '':'' then rest else field
      | _ \<Rightarrow> field)"

definition decode_history_spec :: "('f, 'r) env_gz \<Rightarrow> string \<Rightarrow> 'f Stats_gz option" where
  "decode_history_spec env field =
     (case base64_DecodeString env (strip_marker field) of
        Inl err \<Rightarrow> None
      | Inr z \<Rightarrow>
          (case gzip_NewReader env z of
             Inl err \<Rightarrow> None
           | Inr r \<Rightarrow>
               (case decode_Memory env r of
                  Inl err \<Rightarrow> None
                | Inr memory \<Rightarrow>
                    (if Stats_History memory = [] then None else Some (last (Stats_History memory))))))"

text \<open>
  Modelled from the spec: the encoder of the compressed history is not in the repository
  (the blob is written by the player's script on the game server). The specification
  names its steps: JSON-encode the memory, gzip, base64, and put the marker \<^verbatim>\<open>gz:\<close> in
  front or not. The three library encoders are parameters.
\<close>

definition encode_history ::
  "('f Memory \<Rightarrow> string) \<Rightarrow> (string \<Rightarrow> string) \<Rightarrow> (string \<Rightarrow> string) \<Rightarrow> bool \<Rightarrow> 'f Memory \<Rightarrow> string" where
  "encode_history marshal compress encode marker memory =
     (if marker then ''gz:'' else []) @ encode (compress (marshal memory))"

section \<open>Reading the calls of a cycle\<close>

text \<open>
  The gauge a call works on, what one call does to the series of one gauge, and the label
  sets a list of calls writes to a gauge.
\<close>

fun on :: "'f call \<Rightarrow> gauge option" where
  "on (Reset g) = Some g"
| "on (WithSet g l v) = Some g"
| "on (Observe v) = None"

fun effect :: "gauge \<Rightarrow> 'f call \<Rightarrow> (Labels \<rightharpoonup> 'f) \<Rightarrow> (Labels \<rightharpoonup> 'f)" where
  "effect g (Reset g') m = (if g' = g then Map.empty else m)"
| "effect g (WithSet g' l v) m = (if g' = g then m(l \<mapsto> v) else m)"
| "effect g (Observe v) m = m"

definition labels_written :: "gauge \<Rightarrow> 'f call list \<Rightarrow> Labels set" where
  "labels_written g cs = {l. \<exists>v. WithSet g l v \<in> set cs}"

text \<open>
  The gauges that carry a room label, the gauges written once per configured shard, and
  the gauges the segment exporter resets. The history exporter has no gauge
  \<^verbatim>\<open>terminal\<close>.
\<close>

definition room_gauges :: "gauge set" where
  "room_gauges = {rcl, energy, creeps, structures, storage, terminal}"

definition room_gauges_gz :: "gauge set" where
  "room_gauges_gz = {rcl, energy, creeps, structures, storage}"

definition shard_gauges :: "gauge set" where
  "shard_gauges = {tick, ms, resetTick, resetMs, cpu, gcl, gpl}"

definition reset_gauges :: "gauge set" where
  "reset_gauges = {cpuShard, resources, marketOrders, rcl, energy, creeps, structures, storage, terminal}"

text \<open>
  A cycle of the segment exporter fails when a fetch returns an error: the account
  summary, the market orders, or the segment of a configured shard. \<open>segment_stats\<close> is
  the snapshot a shard's fetch returned, \<open>fetched_urls\<close> the requests up to the first
  failing one, \<open>cycle_calls\<close> the writes of a cycle whose fetches all succeeded.
\<close>

definition segment_ok :: "'f env \<Rightarrow> string \<Rightarrow> bool" where
  "segment_ok env shard = (\<not> isl (fst (getStatsFromMemorySegment env shard)))"

definition cycle_fails :: "'f env \<Rightarrow> bool" where
  "cycle_fails env =
     (isl (fst (getStatsFromAuthMe env)) \<or> isl (fst (getMarketOrders env))
      \<or> list_ex (\<lambda>shard. \<not> segment_ok env shard) (shards env))"

definition segment_stats :: "('f::zero) env \<Rightarrow> string \<Rightarrow> 'f Stats" where
  "segment_stats env shard =
     (case fst (getStatsFromMemorySegment env shard) of Inr stats \<Rightarrow> stats | Inl err \<Rightarrow> zero_Stats)"

definition fetched_urls :: "'f env \<Rightarrow> string list" where
  "fetched_urls env =
     (if isl (fst (getStatsFromAuthMe env)) then [auth_me_url]
      else if isl (fst (getMarketOrders env)) then [auth_me_url, my_orders_url]
      else [auth_me_url, my_orders_url]
        @ map (memory_segment_url env)
            (takeWhile (segment_ok env) (shards env) @ take 1 (dropWhile (segment_ok env) (shards env))))"

definition cycle_calls :: "('f::zero) env \<Rightarrow> 'f AuthMeResponse \<Rightarrow> 'f MarketOrdersResponse \<Rightarrow> 'f call list" where
  "cycle_calls env authMe orders =
     cpuShard_calls authMe @ resources_calls authMe @ marketOrders_calls orders
     @ concat (map (\<lambda>shard. shard_calls shard (segment_stats env shard)) (shards env))"

text \<open>
  The label sets the exporter writes to a per-shard gauge for a list of configured shards.
\<close>

definition shard_series :: "gauge \<Rightarrow> string list \<Rightarrow> Labels set" where
  "shard_series g configured =
     (if g \<in> {tick, ms, resetTick, resetMs} then (\<Union>shard\<in>set configured. {[(''shard'', shard)]})
      else if g = cpu
      then (\<Union>shard\<in>set configured.
              (\<lambda>typ. [(''shard'', shard), (''type'', typ)]) ` {''used'', ''limit'', ''bucket''})
      else if g \<in> {gcl, gpl}
      then (\<Union>shard\<in>set configured.
              (\<lambda>typ. [(''shard'', shard), (''type'', typ)]) ` {''level'', ''progress'', ''progressTotal''})
      else {})"

section \<open>Example cycles\<close>

text \<open>
  Concrete environments, for the theorems to be applied to. The game server and the
  library decoders are tables that answer the requests and documents of the examples and
  fail on everything else.
\<close>

definition world_start :: "int world" where
  "world_start = \<lparr>store = \<lparr>gauges = (\<lambda>g. Map.empty), histogram = []\<rparr>, stdout = [], requests = []\<rparr>"

text \<open>A world whose store holds a creep count of room \<^verbatim>\<open>W1N1\<close>, as an earlier cycle left it.\<close>

definition world_W1N1 :: "int world" where
  "world_W1N1 = world_start\<lparr>store :=
     exec [WithSet creeps [(''shard'', ''shard0''), (''room'', ''W1N1'')] 5] (store world_start)\<rparr>"

definition account_example :: "int AuthMeResponse" where
  "account_example = \<lparr>Money = 100, CPUShard = [(''shard0'', 20)], Resources = [(''energy'', 50)]\<rparr>"

definition orders_example :: "int MarketOrdersResponse" where
  "orders_example = \<lparr>Shards = []\<rparr>"

text \<open>
  The body of a memory segment response whose \<^verbatim>\<open>data\<close> is the given text (with no
  character that JSON escapes).
\<close>

definition segment_body :: "string \<Rightarrow> string" where
  \<open>segment_body text = ''{"ok":1,"data":"'' @ text @ ''"}''\<close>

text \<open>
  The segment exporter's example: the account of the specification's scenario, no market
  order, and for every shard the text of its segment. The text \<^verbatim>\<open>{}\<close> is a snapshot with
  no room; any other text is not JSON.
\<close>

definition example_env :: "string list \<Rightarrow> (string \<Rightarrow> string) \<Rightarrow> int env" where
  \<open>example_env configured segment_text =
     \<lparr>shards = configured, segment = ''0'', token = ''secret'',
      client_Do = (\<lambda>url tok.
        if url = ''https://screeps.com/api/auth/me''
        then Inr ''{"money":100,"resources":{"energy":50},"cpuShard":{"shard0":20}}''
        else if url = ''https://screeps.com/api/game/market/my-orders''
        then Inr ''{"ok":1,"shards":{}}''
        else if url = ''https://screeps.com/api/user/memory-segment?segment=0&shard=shard0''
        then Inr (segment_body (segment_text ''shard0''))
        else if url = ''https://screeps.com/api/user/memory-segment?segment=0&shard=shard1''
        then Inr (segment_body (segment_text ''shard1''))
        else Inl ''no such host''),
      decode_AuthMeResponse = (\<lambda>body.
        if body = ''{"money":100,"resources":{"energy":50},"cpuShard":{"shard0":20}}''
        then Inr account_example else Inl ''unexpected end of JSON input''),
      decode_MarketOrdersResponse = (\<lambda>body.
        if body = ''{"ok":1,"shards":{}}'' then Inr orders_example
        else Inl ''unexpected end of JSON input''),
      decode_MemoryResponse = (\<lambda>body.
        if body = segment_body ''{}'' then Inr \<lparr>Ok = 1, Data = ''{}''\<rparr>
        else if body = segment_body ''hello'' then Inr \<lparr>Ok = 1, Data = ''hello''\<rparr>
        else Inl ''unexpected end of JSON input''),
      unmarshal_Stats = (\<lambda>text.
        if text = ''{}'' then Inr zero_Stats
        else Inl ''invalid character h looking for beginning of value''),
      since_start = 2\<rparr>\<close>

text \<open>One shard, whose segment holds a snapshot with no room.\<close>

definition env_no_rooms :: "int env" where
  "env_no_rooms = example_env [''shard0''] (\<lambda>shard. ''{}'')"

text \<open>Two shards; the segment of the first is not JSON, the segment of the second is.\<close>

definition env_failing :: "int env" where
  "env_failing = example_env [''shard0'', ''shard1''] (\<lambda>shard. if shard = ''shard0'' then ''hello'' else ''{}'')"

text \<open>
  The history exporter's examples: three memory documents, their gzip streams and the
  base64 texts of those.
\<close>

definition doc_rooms :: string where
  \<open>doc_rooms = ''{"stats":{"history":[{"tick":7,"rooms":{"W1N1":{"creeps":5}}}]}}''\<close>

definition gzip_rooms :: string where
  "gzip_rooms =
    [CHR 0x1F, CHR 0x8B, CHR 0x08, CHR 0x00, CHR 0x00, CHR 0x00, CHR 0x00, CHR 0x00, CHR 0x02,
     CHR 0x03, CHR 0xAB, CHR 0x56, CHR 0x2A, CHR 0x2E, CHR 0x49, CHR 0x2C, CHR 0x29, CHR 0x56,
     CHR 0xB2, CHR 0xAA, CHR 0x56, CHR 0xCA, CHR 0xC8, CHR 0x2C, CHR 0x2E, CHR 0xC9, CHR 0x2F,
     CHR 0xAA, CHR 0x54, CHR 0xB2, CHR 0x8A, CHR 0xAE, CHR 0x56, CHR 0x2A, CHR 0xC9, CHR 0x4C,
     CHR 0xCE, CHR 0x56, CHR 0xB2, CHR 0x32, CHR 0xD7, CHR 0x51, CHR 0x2A, CHR 0xCA, CHR 0xCF,
     CHR 0xCF, CHR 0x05, CHR 0xCB, CHR 0x86, CHR 0x1B, CHR 0xFA, CHR 0x19, CHR 0x82, CHR 0xE8,
     CHR 0xE4, CHR 0xA2, CHR 0xD4, CHR 0xD4, CHR 0x02, CHR 0xA0, CHR 0x88, CHR 0x69, CHR 0x6D,
     CHR 0x6D, CHR 0x6D, CHR 0x6C, CHR 0x6D, CHR 0x2D, CHR 0x00, CHR 0x63, CHR 0x05, CHR 0x88,
     CHR 0xAF, CHR 0x40, CHR 0x00, CHR 0x00, CHR 0x00]"

definition base64_rooms :: string where
  "base64_rooms = ''H4sIAAAAAAACA6tWKi5JLClWsqpWysgsLskvqlSyiq5WKslMzlayMtdRKsrPzwXLhhv6GYLo5KLU1AKgiGltbW1sbS0AYwWIr0AAAAA=''"

definition doc_norooms :: string where
  \<open>doc_norooms = ''{"stats":{"history":[{"tick":7,"rooms":{"W1N1":{"creeps":5}}},{"tick":8}]}}''\<close>

definition gzip_norooms :: string where
  "gzip_norooms =
    [CHR 0x1F, CHR 0x8B, CHR 0x08, CHR 0x00, CHR 0x00, CHR 0x00, CHR 0x00, CHR 0x00, CHR 0x02,
     CHR 0x03, CHR 0xAB, CHR 0x56, CHR 0x2A, CHR 0x2E, CHR 0x49, CHR 0x2C, CHR 0x29, CHR 0x56,
     CHR 0xB2, CHR 0xAA, CHR 0x56, CHR 0xCA, CHR 0xC8, CHR 0x2C, CHR 0x2E, CHR 0xC9, CHR 0x2F,
     CHR 0xAA, CHR 0x54, CHR 0xB2, CHR 0x8A, CHR 0xAE, CHR 0x56, CHR 0x2A, CHR 0xC9, CHR 0x4C,
     CHR 0xCE, CHR 0x56, CHR 0xB2, CHR 0x32, CHR 0xD7, CHR 0x51, CHR 0x2A, CHR 0xCA, CHR 0xCF,
     CHR 0xCF, CHR 0x05, CHR 0xCB, CHR 0x86, CHR 0x1B, CHR 0xFA, CHR 0x19, CHR 0x82, CHR 0xE8,
     CHR 0xE4, CHR 0xA2, CHR 0xD4, CHR 0xD4, CHR 0x02, CHR 0xA0, CHR 0x88, CHR 0x69, CHR 0x6D,
     CHR 0x6D, CHR 0xAD, CHR 0x0E, CHR 0x4C, CHR 0xA1, CHR 0x45, CHR 0x6D, CHR 0x6C, CHR 0x6D,
     CHR 0x2D, CHR 0x00, CHR 0x93, CHR 0xAA, CHR 0xF2, CHR 0xDD, CHR 0x4B, CHR 0x00, CHR 0x00,
     CHR 0x00]"

definition base64_norooms :: string where
  "base64_norooms = ''H4sIAAAAAAACA6tWKi5JLClWsqpWysgsLskvqlSyiq5WKslMzlayMtdRKsrPzwXLhhv6GYLo5KLU1AKgiGltba0OTKFFbWxtLQCTqvLdSwAAAA==''"

definition doc_empty :: string where
  \<open>doc_empty = ''{}''\<close>

definition gzip_empty :: string where
  "gzip_empty =
    [CHR 0x1F, CHR 0x8B, CHR 0x08, CHR 0x00, CHR 0x00, CHR 0x00, CHR 0x00, CHR 0x00, CHR 0x02,
     CHR 0x03, CHR 0xAB, CHR 0xAE, CHR 0x05, CHR 0x00, CHR 0x43, CHR 0xBF, CHR 0xA6, CHR 0xA3,
     CHR 0x02, CHR 0x00, CHR 0x00, CHR 0x00]"

definition base64_empty :: string where
  "base64_empty = ''H4sIAAAAAAACA6uuBQBDv6ajAgAAAA==''"

definition zero_Progress_gz :: "int Progress_gz" where
  "zero_Progress_gz = \<lparr>Level_gz = 0, Progress_gz = 0, ProgressTotal_gz = 0\<rparr>"

definition stats_tick :: "64 word \<Rightarrow> (string \<times> int Room_gz) list \<Rightarrow> int Stats_gz" where
  "stats_tick n rooms = \<lparr>Tick_gz = n, Ms_gz = 0, CPU_gz = \<lparr>Used = 0, Limit = 0, Bucket = 0\<rparr>,
     GCL_gz = zero_Progress_gz, GPL_gz = zero_Progress_gz, Rooms_gz = rooms\<rparr>"

definition room_W1N1 :: "int Room_gz" where
  "room_W1N1 = \<lparr>RCL_gz = zero_Progress_gz, Structures_gz = [], Creeps_gz = 5, EnergyAvailable_gz = 0,
     EnergyCapacityAvailable_gz = 0, Storage_gz = []\<rparr>"

definition memory_rooms :: "int Memory" where
  "memory_rooms = \<lparr>Stats_History = [stats_tick 7 [(''W1N1'', room_W1N1)]]\<rparr>"

definition memory_norooms :: "int Memory" where
  "memory_norooms = \<lparr>Stats_History = [stats_tick 7 [(''W1N1'', room_W1N1)], stats_tick 8 []]\<rparr>"

definition memory_empty :: "int Memory" where
  "memory_empty = \<lparr>Stats_History = []\<rparr>"

definition memory_body :: "string \<Rightarrow> string" where
  \<open>memory_body text = ''{"ok":1,"data":"'' @ text @ ''"}''\<close>

text \<open>
  The server answers with the given \<^verbatim>\<open>data\<close> text. The reader of a gzip stream is the
  document it decompresses to.
\<close>

definition example_env_gz :: "string \<Rightarrow> (int, string) env_gz" where
  \<open>example_env_gz text =
     \<lparr>shard_gz = ''shard0'', token_gz = ''secret'',
      client_Do_gz = (\<lambda>url tok.
        if url = ''https://screeps.com/api/user/memory?shard=shard0'' then Inr (memory_body text)
        else Inl ''no such host''),
      decode_MemoryResponse_gz = (\<lambda>body.
        if body = memory_body text then Inr \<lparr>Ok_gz = 1, Data_gz = text\<rparr>
        else Inl ''unexpected end of JSON input''),
      base64_DecodeString = (\<lambda>s.
        if s = base64_rooms then Inr gzip_rooms
        else if s = base64_norooms then Inr gzip_norooms
        else if s = base64_empty then Inr gzip_empty
        else Inl ''illegal base64 data at input byte 0''),
      gzip_NewReader = (\<lambda>z.
        if z = gzip_rooms then Inr doc_rooms
        else if z = gzip_norooms then Inr doc_norooms
        else if z = gzip_empty then Inr doc_empty
        else Inl ''gzip: invalid header''),
      decode_Memory = (\<lambda>r.
        if r = doc_rooms then Inr memory_rooms
        else if r = doc_norooms then Inr memory_norooms
        else if r = doc_empty then Inr memory_empty
        else Inl ''unexpected end of JSON input''),
      float64_of_uint64 = (\<lambda>x. int (unat x)),
      float64_of_int64 = (\<lambda>x. sint x),
      since_start_gz = 2\<rparr>\<close>

text \<open>The encoders of the examples, inverse to the tables above.\<close>

definition example_marshal :: "int Memory \<Rightarrow> string" where
  \<open>example_marshal memory =
     (if memory = memory_rooms then doc_rooms
      else if memory = memory_norooms then doc_norooms
      else if memory = memory_empty then doc_empty
      else ''null'')\<close>

definition example_compress :: "string \<Rightarrow> string" where
  "example_compress doc =
     (if doc = doc_rooms then gzip_rooms
      else if doc = doc_norooms then gzip_norooms
      else if doc = doc_empty then gzip_empty
      else [])"

definition example_encode :: "string \<Rightarrow> string" where
  "example_encode z =
     (if z = gzip_rooms then base64_rooms
      else if z = gzip_norooms then base64_norooms
      else if z = gzip_empty then base64_empty
      else [])"

section \<open>The store under a list of calls\<close>

lemma gauges_exec_call: "gauges (exec_call c st) g = effect g c (gauges st g)"
  by (cases c) auto

lemma gauges_exec: "gauges (exec cs st) g = fold (effect g) cs (gauges st g)"
  unfolding exec_def by (induction cs arbitrary: st) (simp_all add: gauges_exec_call)

lemma histogram_exec: "histogram (exec cs st) = histogram st @ [v. Observe v \<leftarrow> cs]"
  unfolding exec_def
proof (induction cs arbitrary: st)
  case Nil
  then show ?case by simp
next
  case (Cons c cs)
  then show ?case by (cases c) simp_all
qed

lemma effect_other: "on c \<noteq> Some g \<Longrightarrow> effect g c m = m"
  by (cases c) auto

lemma fold_effect_other: "\<forall>c\<in>set cs. on c \<noteq> Some g \<Longrightarrow> fold (effect g) cs m = m"
  by (induction cs arbitrary: m) (simp_all add: effect_other)

lemma fold_effect_no_reset:
  "Reset g \<notin> set cs \<Longrightarrow> fold (effect g) cs m = m ++ fold (effect g) cs Map.empty"
proof (induction cs arbitrary: m)
  case Nil
  then show ?case by simp
next
  case (Cons c cs)
  from Cons.prems have nr: "Reset g \<notin> set cs" and c: "c \<noteq> Reset g" by auto
  have step: "fold (effect g) cs (effect g c m) = effect g c m ++ fold (effect g) cs Map.empty"
    by (rule Cons.IH [OF nr])
  have step0: "fold (effect g) cs (effect g c Map.empty)
      = effect g c Map.empty ++ fold (effect g) cs Map.empty"
    by (rule Cons.IH [OF nr])
  have eff: "effect g c m = m ++ effect g c Map.empty"
    using c by (cases c) auto
  have "fold (effect g) (c # cs) m = (m ++ effect g c Map.empty) ++ fold (effect g) cs Map.empty"
    using step eff by simp
  also have "\<dots> = m ++ fold (effect g) (c # cs) Map.empty"
    using step0 by (simp only: map_add_assoc fold_Cons comp_apply)
  finally show ?case .
qed

lemma dom_fold_effect:
  "Reset g \<notin> set cs \<Longrightarrow> dom (fold (effect g) cs m) = dom m \<union> {l. \<exists>v. WithSet g l v \<in> set cs}"
proof (induction cs arbitrary: m)
  case Nil
  then show ?case by simp
next
  case (Cons c cs)
  then show ?case by (cases c) auto
qed

lemma labels_written_Nil [simp]: "labels_written g [] = {}"
  by (simp add: labels_written_def)

lemma labels_written_Cons [simp]:
  "labels_written g (WithSet g' l v # cs)
     = (if g' = g then insert l (labels_written g cs) else labels_written g cs)"
  by (auto simp: labels_written_def)

lemma labels_written_append [simp]:
  "labels_written g (cs @ ds) = labels_written g cs \<union> labels_written g ds"
  by (auto simp: labels_written_def)

lemma labels_written_concat:
  "labels_written g (concat css) = (\<Union>cs\<in>set css. labels_written g cs)"
  by (auto simp: labels_written_def)

lemma labels_written_map:
  "labels_written g (map (\<lambda>(k, v). WithSet g (f k) v) kvs) = f ` fst ` set kvs"
  by (force simp: labels_written_def)

lemma labels_written_map_other:
  "g' \<noteq> g \<Longrightarrow> labels_written g (map (\<lambda>(k, v). WithSet g' (f k) v) kvs) = {}"
  by (auto simp: labels_written_def)

lemma dom_fold_effect_written:
  "Reset g \<notin> set cs \<Longrightarrow> dom (fold (effect g) cs m) = dom m \<union> labels_written g cs"
  by (simp add: dom_fold_effect labels_written_def)

lemma fold_effect_unwritten:
  assumes "Reset g \<notin> set cs" and "l \<notin> labels_written g cs"
  shows "fold (effect g) cs m l = m l"
proof -
  have "l \<notin> dom (fold (effect g) cs Map.empty)"
    using assms by (simp add: dom_fold_effect_written)
  then show ?thesis
    by (subst fold_effect_no_reset [OF assms(1)]) (simp add: map_add_def domIff split: option.splits)
qed

lemma image_comprehension: "f ` A = {f x | x. x \<in> A}"
  by auto

lemma image_insert_comprehension: "f ` insert a A = {f x | x. x = a \<or> x \<in> A}"
  by auto

lemma Union_image_comprehension:
  "(\<Union>x\<in>A. f x ` B) = {f x y | x y. x \<in> A \<and> y \<in> B}"
  by auto

lemma Union_singleton_comprehension: "(\<Union>x\<in>A. {f x}) = {f x | x. x \<in> A}"
  by auto

lemma Union2_image_comprehension:
  "(\<Union>(x, ys)\<in>A. \<Union>y\<in>set ys. f x y ` B) = {f x y z | x ys y z. (x, ys) \<in> A \<and> y \<in> set ys \<and> z \<in> B}"
  by fastforce

section \<open>The calls of the segment exporter\<close>

lemma filter_on_none: "\<forall>c\<in>set cs. on c \<noteq> Some g \<Longrightarrow> [c \<leftarrow> cs. on c = Some g] = []"
  by (induction cs) auto

lemma filter_on_all: "\<forall>c\<in>set cs. on c = Some g \<Longrightarrow> [c \<leftarrow> cs. on c = Some g] = cs"
  by (induction cs) auto

lemma in_cpuShard_calls:
  "c \<in> set (cpuShard_calls authMe) \<longleftrightarrow>
     (\<exists>shard amount. (shard, amount) \<in> set (CPUShard authMe) \<and> c = WithSet cpuShard [(''shard'', shard)] amount)"
  unfolding cpuShard_calls_def by auto

lemma in_resources_calls:
  "c \<in> set (resources_calls authMe) \<longleftrightarrow>
     c = WithSet resources [(''shard'', ''intershard''), (''type'', ''money'')] (Money authMe)
     \<or> (\<exists>typ amount. (typ, amount) \<in> set (Resources authMe)
           \<and> c = WithSet resources [(''shard'', ''intershard''), (''type'', typ)] amount)"
  unfolding resources_calls_def by auto

lemma in_marketOrders_calls:
  "c \<in> set (marketOrders_calls orders) \<longleftrightarrow>
     (\<exists>shard os order. (shard, os) \<in> set (Shards orders) \<and> order \<in> set os \<and> c \<in> set (order_calls shard order))"
  unfolding marketOrders_calls_def by auto

lemma on_order_calls: "c \<in> set (order_calls shard order) \<Longrightarrow> on c = Some marketOrders"
  unfolding order_calls_def by auto

lemma on_marketOrders_calls: "c \<in> set (marketOrders_calls orders) \<Longrightarrow> on c = Some marketOrders"
  by (auto simp: in_marketOrders_calls on_order_calls)

lemma on_cpuShard_calls: "c \<in> set (cpuShard_calls authMe) \<Longrightarrow> on c = Some cpuShard"
  by (auto simp: in_cpuShard_calls)

lemma on_resources_calls: "c \<in> set (resources_calls authMe) \<Longrightarrow> on c = Some resources"
  by (auto simp: in_resources_calls)

lemma room_calls_shape:
  "c \<in> set (room_calls shard name room) \<Longrightarrow>
     \<exists>g l v. c = WithSet g l v \<and> g \<in> room_gauges \<and> (''shard'', shard) \<in> set l \<and> (''room'', name) \<in> set l"
  unfolding room_calls_def room_gauges_def by auto

lemma shard_calls_shape:
  "c \<in> set (shard_calls shard stats) \<Longrightarrow>
     (\<exists>g l v. c = WithSet g l v \<and> g \<in> shard_gauges \<and> (''shard'', shard) \<in> set l)
     \<or> (\<exists>name room. (name, room) \<in> set (Rooms stats) \<and> c \<in> set (room_calls shard name room))"
  unfolding shard_calls_def shard_gauges_def by auto

lemma in_shards_calls:
  "c \<in> set (shards_calls configured statsMap) \<longleftrightarrow>
     (\<exists>shard\<in>set configured. c \<in> set (shard_calls shard (index statsMap shard)))"
  unfolding shards_calls_def by auto

lemma on_shards_calls:
  "c \<in> set (shards_calls configured statsMap) \<Longrightarrow> \<exists>g \<in> shard_gauges \<union> room_gauges. on c = Some g"
  by (auto simp: in_shards_calls dest!: shard_calls_shape room_calls_shape)

lemma shards_calls_not_market:
  "c \<in> set (shards_calls configured statsMap) \<Longrightarrow> on c \<noteq> Some marketOrders"
  by (auto dest!: on_shards_calls simp: shard_gauges_def room_gauges_def)

lemma labels_written_cpuShard_calls:
  "labels_written g (cpuShard_calls authMe)
     = (if g = cpuShard then (\<lambda>shard. [(''shard'', shard)]) ` fst ` set (CPUShard authMe) else {})"
  unfolding cpuShard_calls_def
  by (simp add: labels_written_map labels_written_map_other)

lemma labels_written_resources_calls:
  "labels_written g (resources_calls authMe)
     = (if g = resources
        then (\<lambda>typ. [(''shard'', ''intershard''), (''type'', typ)]) ` insert ''money'' (fst ` set (Resources authMe))
        else {})"
  unfolding resources_calls_def
  by (simp add: labels_written_map labels_written_map_other del: list.inject)

lemma labels_written_order_calls:
  "labels_written g (order_calls shard order)
     = (if g = marketOrders
        then (\<lambda>metric. [(''shard'', shard), (''room'', RoomName order), (''type'', ResourceType order),
               (''order_type'', Type order), (''metric'', metric)])
             ` {''price'', ''amount'', ''remainingAmount'', ''totalAmount''}
        else {})"
  unfolding order_calls_def
  by (simp del: list.inject)

lemma labels_written_marketOrders_calls:
  "labels_written g (marketOrders_calls orders)
     = (if g = marketOrders
        then (\<Union>(shard, os)\<in>set (Shards orders). \<Union>order\<in>set os.
               (\<lambda>metric. [(''shard'', shard), (''room'', RoomName order), (''type'', ResourceType order),
                  (''order_type'', Type order), (''metric'', metric)])
               ` {''price'', ''amount'', ''remainingAmount'', ''totalAmount''})
        else {})"
  unfolding marketOrders_calls_def
  by (simp add: labels_written_concat labels_written_order_calls case_prod_unfold del: image_insert)

lemma room_calls_labels:
  "c \<in> set (room_calls shard name room) \<Longrightarrow>
     \<exists>g l v. c = WithSet g l v \<and> g \<in> room_gauges \<and> map_of l ''shard'' = Some shard
       \<and> map_of l ''room'' = Some name"
  unfolding room_calls_def room_gauges_def by auto

lemma labels_written_room_calls:
  "l \<in> labels_written g (room_calls shard name room) \<Longrightarrow>
     g \<in> room_gauges \<and> map_of l ''shard'' = Some shard \<and> map_of l ''room'' = Some name"
  unfolding labels_written_def using room_calls_labels [of "WithSet g l _" shard name room] by auto

lemma labels_written_rooms_none:
  "g \<notin> room_gauges \<Longrightarrow>
     labels_written g (concat (map (\<lambda>(name, room). room_calls shard name room) rooms)) = {}"
  using labels_written_room_calls [of _ g shard]
  by (auto simp: labels_written_concat)

lemma shard_gauges_not_room: "g \<in> shard_gauges \<Longrightarrow> g \<notin> room_gauges"
  by (auto simp: shard_gauges_def room_gauges_def)

lemma labels_written_tick:
  "g \<in> {tick, ms, resetTick, resetMs} \<Longrightarrow>
     labels_written g (shard_calls shard stats) = {[(''shard'', shard)]}"
  unfolding shard_calls_def
  by (auto simp: labels_written_rooms_none room_gauges_def simp del: list.inject)

lemma labels_written_cpu:
  "labels_written cpu (shard_calls shard stats)
     = (\<lambda>typ. [(''shard'', shard), (''type'', typ)]) ` {''used'', ''limit'', ''bucket''}"
  unfolding shard_calls_def
  by (simp add: labels_written_rooms_none room_gauges_def del: list.inject)

lemma labels_written_gcl:
  "g \<in> {gcl, gpl} \<Longrightarrow>
     labels_written g (shard_calls shard stats)
       = (\<lambda>typ. [(''shard'', shard), (''type'', typ)]) ` {''level'', ''progress'', ''progressTotal''}"
  unfolding shard_calls_def
  by (auto simp: labels_written_rooms_none room_gauges_def simp del: list.inject)

lemma labels_written_shard_calls_account:
  "g \<in> {cpuShard, resources, marketOrders} \<Longrightarrow> labels_written g (shard_calls shard stats) = {}"
  unfolding shard_calls_def
  by (auto simp: labels_written_rooms_none room_gauges_def simp del: list.inject)

lemma labels_written_shard_calls_shard:
  assumes "l \<in> labels_written g (shard_calls shard stats)"
  shows "map_of l ''shard'' = Some shard"
proof -
  from assms obtain v where "WithSet g l v \<in> set (shard_calls shard stats)"
    by (auto simp: labels_written_def)
  then consider "l = [(''shard'', shard)]"
    | ty where "l = [(''shard'', shard), (''type'', ty)]"
    | name room where "WithSet g l v \<in> set (room_calls shard name room)"
    unfolding shard_calls_def by auto
  then show ?thesis
  proof cases
    case 3
    then show ?thesis using room_calls_labels by fastforce
  qed simp_all
qed

lemma labels_written_shard_calls_room:
  assumes "l \<in> labels_written g (shard_calls shard stats)" and "g \<in> room_gauges"
  shows "\<exists>name\<in>fst ` set (Rooms stats). map_of l ''room'' = Some name"
proof -
  from assms(1) have "l \<in> labels_written g (concat (map (\<lambda>(name, room). room_calls shard name room) (Rooms stats)))"
    using assms(2) unfolding shard_calls_def
    by (auto simp: room_gauges_def simp del: list.inject)
  then obtain name room where "(name, room) \<in> set (Rooms stats)"
    and "l \<in> labels_written g (room_calls shard name room)"
    by (auto simp: labels_written_concat)
  then show ?thesis
    using labels_written_room_calls [of l g shard name room] by force
qed

section \<open>The fetches of the segment exporter\<close>

lemma snd_getStatsFromAuthMe: "snd (getStatsFromAuthMe env) = [auth_me_url]"
  by (simp add: getStatsFromAuthMe_def)

lemma snd_getMarketOrders: "snd (getMarketOrders env) = [my_orders_url]"
  by (simp add: getMarketOrders_def)

lemma snd_getStatsFromMemorySegment:
  "snd (getStatsFromMemorySegment env shard) = [memory_segment_url env shard]"
  by (simp add: getStatsFromMemorySegment_def)

lemma segment_ok_stats:
  "segment_ok env shard \<Longrightarrow>
     getStatsFromMemorySegment env shard = (Inr (segment_stats env shard), [memory_segment_url env shard])"
  using snd_getStatsFromMemorySegment [of env shard]
  by (cases "getStatsFromMemorySegment env shard")
     (auto simp: segment_ok_def segment_stats_def split: sum.splits)

lemma segment_fails:
  "\<not> segment_ok env shard \<Longrightarrow>
     \<exists>err. getStatsFromMemorySegment env shard = (Inl err, [memory_segment_url env shard])"
  using snd_getStatsFromMemorySegment [of env shard]
  by (cases "getStatsFromMemorySegment env shard")
     (auto simp: segment_ok_def isl_def)

lemma fetchShards_Cons_ok:
  "segment_ok env shard \<Longrightarrow>
     fetchShards env (shard # rest) statsMap
       = (fst (fetchShards env rest (AList.update shard (segment_stats env shard) statsMap)),
          memory_segment_url env shard
          # snd (fetchShards env rest (AList.update shard (segment_stats env shard) statsMap)))"
  by (simp add: segment_ok_stats split: prod.splits)

lemma fetchShards_Cons_fails:
  "\<not> segment_ok env shard \<Longrightarrow>
     isl (fst (fetchShards env (shard # rest) statsMap))
     \<and> snd (fetchShards env (shard # rest) statsMap) = [memory_segment_url env shard]"
  using segment_fails [of env shard] by auto

lemma fetchShards_urls:
  fixes env :: "('f::zero) env"
  shows "snd (fetchShards env ss statsMap)
     = map (memory_segment_url env)
         (takeWhile (segment_ok env) ss @ take 1 (dropWhile (segment_ok env) ss))"
proof (induction ss arbitrary: statsMap)
  case Nil
  then show ?case by simp
next
  case (Cons shard rest)
  show ?case
  proof (cases "segment_ok env shard")
    case True
    then show ?thesis
      using Cons.IH [of "AList.update shard (segment_stats env shard) statsMap"]
      by (simp only: fetchShards_Cons_ok) simp
  next
    case False
    then show ?thesis
      using fetchShards_Cons_fails [OF False, of rest statsMap] by simp
  qed
qed

lemma fetchShards_fails:
  fixes env :: "('f::zero) env"
  shows "list_ex (\<lambda>shard. \<not> segment_ok env shard) ss \<Longrightarrow> isl (fst (fetchShards env ss statsMap))"
proof (induction ss arbitrary: statsMap)
  case Nil
  then show ?case by simp
next
  case (Cons shard rest)
  show ?case
  proof (cases "segment_ok env shard")
    case True
    with Cons.prems have "list_ex (\<lambda>shard. \<not> segment_ok env shard) rest" by simp
    then show ?thesis
      using Cons.IH [of "AList.update shard (segment_stats env shard) statsMap"] True
      by (simp only: fetchShards_Cons_ok) simp
  next
    case False
    then show ?thesis
      using fetchShards_Cons_fails [OF False, of rest statsMap] by simp
  qed
qed

lemma fetchShards_succeeds:
  fixes env :: "('f::zero) env"
  shows "\<not> list_ex (\<lambda>shard. \<not> segment_ok env shard) ss \<Longrightarrow>
     fst (fetchShards env ss statsMap)
       = Inr (fold (\<lambda>shard. AList.update shard (segment_stats env shard)) ss statsMap)"
proof (induction ss arbitrary: statsMap)
  case Nil
  then show ?case by simp
next
  case (Cons shard rest)
  then have ok: "segment_ok env shard" and rest: "\<not> list_ex (\<lambda>shard. \<not> segment_ok env shard) rest"
    by simp_all
  show ?case
    using Cons.IH [OF rest, of "AList.update shard (segment_stats env shard) statsMap"] ok
    by (simp only: fetchShards_Cons_ok) simp
qed

lemma map_of_fold_update:
  "map_of (fold (\<lambda>shard. AList.update shard (f shard)) ss statsMap) k
     = (if k \<in> set ss then Some (f k) else map_of statsMap k)"
  by (induction ss arbitrary: statsMap) (auto simp: update_conv')

lemma index_fetched:
  "shard \<in> set ss \<Longrightarrow>
     index (fold (\<lambda>shard. AList.update shard (segment_stats env shard)) ss statsMap) shard
       = segment_stats env shard"
  by (simp add: index_def map_of_fold_update)

lemma shards_calls_fetched:
  "shards_calls ss (fold (\<lambda>shard. AList.update shard (segment_stats env shard)) ss [])
     = concat (map (\<lambda>shard. shard_calls shard (segment_stats env shard)) ss)"
  unfolding shards_calls_def
  by (rule arg_cong [where f = concat]) (simp add: index_fetched)

lemma getStatsFromAuthMe_eq: "getStatsFromAuthMe env = (fst (getStatsFromAuthMe env), [auth_me_url])"
  using snd_getStatsFromAuthMe [of env] by (cases "getStatsFromAuthMe env") simp

lemma getMarketOrders_eq: "getMarketOrders env = (fst (getMarketOrders env), [my_orders_url])"
  using snd_getMarketOrders [of env] by (cases "getMarketOrders env") simp

lemma fetchShards_eq:
  fixes env :: "('f::zero) env"
  shows "fetchShards env ss statsMap
     = (fst (fetchShards env ss statsMap),
        map (memory_segment_url env)
          (takeWhile (segment_ok env) ss @ take 1 (dropWhile (segment_ok env) ss)))"
  using fetchShards_urls [of env ss statsMap] by (cases "fetchShards env ss statsMap") simp

lemma updateStats_fails:
  fixes env :: "('f::zero) env"
  assumes "cycle_fails env"
  shows "\<exists>err. updateStats env w = Println err (fetched_urls env) w"
proof (cases "fst (getStatsFromAuthMe env)")
  case (Inl err)
  then have "updateStats env w = Println err (fetched_urls env) w"
    using getStatsFromAuthMe_eq [of env]
    by (simp add: updateStats_def fetched_urls_def split: prod.splits)
  then show ?thesis ..
next
  case authMe: (Inr authMe)
  show ?thesis
  proof (cases "fst (getMarketOrders env)")
    case (Inl err)
    then have "updateStats env w = Println err (fetched_urls env) w"
      using getStatsFromAuthMe_eq [of env] getMarketOrders_eq [of env] authMe
      by (simp add: updateStats_def fetched_urls_def split: prod.splits)
    then show ?thesis ..
  next
    case orders: (Inr orders)
    from assms authMe orders have "list_ex (\<lambda>shard. \<not> segment_ok env shard) (shards env)"
      by (simp add: cycle_fails_def)
    then have "isl (fst (fetchShards env (shards env) []))"
      by (rule fetchShards_fails)
    then obtain err where err: "fst (fetchShards env (shards env) []) = Inl err"
      by (auto simp: isl_def)
    have a: "getStatsFromAuthMe env = (Inr authMe, [auth_me_url])"
      using getStatsFromAuthMe_eq [of env] authMe by simp
    have b: "getMarketOrders env = (Inr orders, [my_orders_url])"
      using getMarketOrders_eq [of env] orders by simp
    have c: "fetchShards env (shards env) [] = (Inl err, map (memory_segment_url env)
          (takeWhile (segment_ok env) (shards env) @ take 1 (dropWhile (segment_ok env) (shards env))))"
      using fetchShards_eq [of env "shards env" "[]"] err by simp
    have "updateStats env w = Println err (fetched_urls env) w"
      using authMe orders by (simp add: updateStats_def a b c fetched_urls_def)
    then show ?thesis ..
  qed
qed

lemma updateStats_succeeds:
  fixes env :: "('f::zero) env"
  assumes "\<not> cycle_fails env"
    and authMe: "fst (getStatsFromAuthMe env) = Inr authMe"
    and orders: "fst (getMarketOrders env) = Inr orders"
  shows "updateStats env w
     = w\<lparr>store := exec (resets @ cycle_calls env authMe orders @ [Observe (since_start env)]) (store w),
         requests := requests w @ fetched_urls env\<rparr>"
proof -
  from assms have ok: "\<not> list_ex (\<lambda>shard. \<not> segment_ok env shard) (shards env)"
    by (simp add: cycle_fails_def)
  have all: "takeWhile (segment_ok env) (shards env) = shards env"
    "dropWhile (segment_ok env) (shards env) = []"
    using ok by (auto simp: list_ex_iff)
  let ?sm = "fold (\<lambda>shard. AList.update shard (segment_stats env shard)) (shards env) []"
  have a: "getStatsFromAuthMe env = (Inr authMe, [auth_me_url])"
    using getStatsFromAuthMe_eq [of env] authMe by simp
  have b: "getMarketOrders env = (Inr orders, [my_orders_url])"
    using getMarketOrders_eq [of env] orders by simp
  have c: "fetchShards env (shards env) [] = (Inr ?sm, map (memory_segment_url env) (shards env))"
    using fetchShards_eq [of env "shards env" "[]"] fetchShards_succeeds [OF ok, of "[]"]
    unfolding all by simp
  have p: "publish env authMe orders ?sm
      = resets @ cycle_calls env authMe orders @ [Observe (since_start env)]"
    by (simp add: publish_def cycle_calls_def shards_calls_fetched)
  have u: "fetched_urls env = [auth_me_url, my_orders_url] @ map (memory_segment_url env) (shards env)"
    unfolding fetched_urls_def all using authMe orders by simp
  show ?thesis
    by (simp add: updateStats_def a b c p u)
qed

lemma cycle_succeeds_obtain:
  assumes "\<not> cycle_fails env"
  obtains authMe orders where "fst (getStatsFromAuthMe env) = Inr authMe"
    and "fst (getMarketOrders env) = Inr orders"
  using assms unfolding cycle_fails_def
  by (cases "fst (getStatsFromAuthMe env)"; cases "fst (getMarketOrders env)") auto

lemma order_calls_writes: "c \<in> set (order_calls shard order) \<Longrightarrow> \<exists>l v. c = WithSet marketOrders l v"
  unfolding order_calls_def by auto

lemma cycle_calls_writes:
  assumes "c \<in> set (cycle_calls env authMe orders)"
  shows "\<exists>g l v. c = WithSet g l v"
proof -
  from assms consider "c \<in> set (cpuShard_calls authMe)" | "c \<in> set (resources_calls authMe)"
    | "c \<in> set (marketOrders_calls orders)"
    | shard where "c \<in> set (shard_calls shard (segment_stats env shard))"
    by (auto simp: cycle_calls_def)
  then show ?thesis
  proof cases
    case 1
    then show ?thesis by (auto simp: in_cpuShard_calls)
  next
    case 2
    then show ?thesis by (auto simp: in_resources_calls)
  next
    case 3
    then show ?thesis by (auto simp: in_marketOrders_calls dest: order_calls_writes)
  next
    case 4
    then show ?thesis by (auto dest!: shard_calls_shape room_calls_shape)
  qed
qed

lemma no_observations: "\<forall>c\<in>set cs. \<exists>g l v. c = WithSet g l v \<Longrightarrow> [v. Observe v \<leftarrow> cs] = []"
  by (induction cs) auto

lemma observations_cycle_calls: "[v. Observe v \<leftarrow> cycle_calls env authMe orders] = []"
  by (rule no_observations) (auto dest: cycle_calls_writes)

section \<open>The gauges after a successful cycle\<close>

lemma fold_effect_resets:
  "fold (effect g) resets m = (if g \<in> reset_gauges then Map.empty else m)"
  by (cases g) (simp_all add: resets_def reset_gauges_def)

lemma cycle_calls_no_reset: "Reset g \<notin> set (cycle_calls env authMe orders)"
  by (auto dest: cycle_calls_writes)

lemma gauges_after_success:
  fixes env :: "('f::zero) env"
  assumes "\<not> cycle_fails env"
    and "fst (getStatsFromAuthMe env) = Inr authMe"
    and "fst (getMarketOrders env) = Inr orders"
  shows "gauges (store (updateStats env w)) g
     = fold (effect g) (cycle_calls env authMe orders)
         (if g \<in> reset_gauges then Map.empty else gauges (store w) g)"
  by (simp add: updateStats_succeeds [OF assms] gauges_exec fold_effect_resets)

lemma dom_after_success:
  fixes env :: "('f::zero) env"
  assumes "\<not> cycle_fails env"
    and "fst (getStatsFromAuthMe env) = Inr authMe"
    and "fst (getMarketOrders env) = Inr orders"
  shows "dom (gauges (store (updateStats env w)) g)
     = (if g \<in> reset_gauges then {} else dom (gauges (store w) g))
       \<union> labels_written g (cycle_calls env authMe orders)"
  by (simp add: gauges_after_success [OF assms] dom_fold_effect_written cycle_calls_no_reset)

lemma unwritten_after_success:
  fixes env :: "('f::zero) env"
  assumes "\<not> cycle_fails env"
    and "fst (getStatsFromAuthMe env) = Inr authMe"
    and "fst (getMarketOrders env) = Inr orders"
    and "g \<notin> reset_gauges" and "l \<notin> labels_written g (cycle_calls env authMe orders)"
  shows "gauges (store (updateStats env w)) g l = gauges (store w) g l"
  using assms(4,5)
  by (simp add: gauges_after_success [OF assms(1-3)] fold_effect_unwritten cycle_calls_no_reset)

lemma labels_written_cycle_calls:
  "labels_written g (cycle_calls env authMe orders)
     = labels_written g (cpuShard_calls authMe) \<union> labels_written g (resources_calls authMe)
       \<union> labels_written g (marketOrders_calls orders)
       \<union> (\<Union>shard\<in>set (shards env). labels_written g (shard_calls shard (segment_stats env shard)))"
  by (simp add: cycle_calls_def labels_written_concat Un_assoc)

lemma account_gauges:
  fixes env :: "('f::zero) env"
  assumes ok: "\<not> cycle_fails env"
    and authMe: "fst (getStatsFromAuthMe env) = Inr authMe"
    and orders: "fst (getMarketOrders env) = Inr orders"
  shows "dom (gauges (store (updateStats env w)) cpuShard)
       = {[(''shard'', shard)] | shard. shard \<in> fst ` set (CPUShard authMe)}"
    and "dom (gauges (store (updateStats env w)) resources)
       = {[(''shard'', ''intershard''), (''type'', typ)] | typ.
            typ = ''money'' \<or> typ \<in> fst ` set (Resources authMe)}"
    and "dom (gauges (store (updateStats env w)) marketOrders)
       = {[(''shard'', shard), (''room'', RoomName order), (''type'', ResourceType order),
           (''order_type'', Type order), (''metric'', metric)] | shard os order metric.
            (shard, os) \<in> set (Shards orders) \<and> order \<in> set os
            \<and> metric \<in> {''price'', ''amount'', ''remainingAmount'', ''totalAmount''}}"
proof -
  have r: "cpuShard \<in> reset_gauges" "resources \<in> reset_gauges" "marketOrders \<in> reset_gauges"
    by (simp_all add: reset_gauges_def)
  have "dom (gauges (store (updateStats env w)) cpuShard)
      = (\<lambda>shard. [(''shard'', shard)]) ` fst ` set (CPUShard authMe)"
    by (simp add: dom_after_success [OF assms] r labels_written_cycle_calls
        labels_written_cpuShard_calls labels_written_resources_calls
        labels_written_marketOrders_calls labels_written_shard_calls_account
        del: image_insert list.inject)
  then show "dom (gauges (store (updateStats env w)) cpuShard)
       = {[(''shard'', shard)] | shard. shard \<in> fst ` set (CPUShard authMe)}"
    by (simp only: image_comprehension [where A = "fst ` set (CPUShard authMe)"])
  have "dom (gauges (store (updateStats env w)) resources)
      = (\<lambda>typ. [(''shard'', ''intershard''), (''type'', typ)])
          ` insert ''money'' (fst ` set (Resources authMe))"
    by (simp add: dom_after_success [OF assms] r labels_written_cycle_calls
        labels_written_cpuShard_calls labels_written_resources_calls
        labels_written_marketOrders_calls labels_written_shard_calls_account
        del: image_insert list.inject)
  then show "dom (gauges (store (updateStats env w)) resources)
       = {[(''shard'', ''intershard''), (''type'', typ)] | typ.
            typ = ''money'' \<or> typ \<in> fst ` set (Resources authMe)}"
    by (simp only: image_insert_comprehension)
  have "dom (gauges (store (updateStats env w)) marketOrders)
      = (\<Union>(shard, os)\<in>set (Shards orders). \<Union>order\<in>set os.
               (\<lambda>metric. [(''shard'', shard), (''room'', RoomName order), (''type'', ResourceType order),
                  (''order_type'', Type order), (''metric'', metric)])
               ` {''price'', ''amount'', ''remainingAmount'', ''totalAmount''})"
    by (simp add: dom_after_success [OF assms] r labels_written_cycle_calls
        labels_written_cpuShard_calls labels_written_resources_calls
        labels_written_marketOrders_calls labels_written_shard_calls_account
        del: image_insert list.inject)
  then show "dom (gauges (store (updateStats env w)) marketOrders)
       = {[(''shard'', shard), (''room'', RoomName order), (''type'', ResourceType order),
           (''order_type'', Type order), (''metric'', metric)] | shard os order metric.
            (shard, os) \<in> set (Shards orders) \<and> order \<in> set os
            \<and> metric \<in> {''price'', ''amount'', ''remainingAmount'', ''totalAmount''}}"
    by (simp only: Union2_image_comprehension
        [where f = "\<lambda>shard order metric. [(''shard'', shard), (''room'', RoomName order),
           (''type'', ResourceType order), (''order_type'', Type order), (''metric'', metric)]"])
qed

lemma shard_gauges_not_reset: "g \<in> shard_gauges \<Longrightarrow> g \<notin> reset_gauges"
  by (auto simp: shard_gauges_def reset_gauges_def)

lemma labels_written_account_none:
  "g \<in> shard_gauges \<union> room_gauges \<Longrightarrow>
     labels_written g (cpuShard_calls authMe) = {} \<and> labels_written g (resources_calls authMe) = {}
     \<and> labels_written g (marketOrders_calls orders) = {}"
  by (auto simp: labels_written_cpuShard_calls labels_written_resources_calls
      labels_written_marketOrders_calls shard_gauges_def room_gauges_def
      simp del: image_insert list.inject)

lemma labels_written_shards:
  "g \<in> shard_gauges \<union> room_gauges \<Longrightarrow>
     labels_written g (cycle_calls env authMe orders)
       = (\<Union>shard\<in>set (shards env). labels_written g (shard_calls shard (segment_stats env shard)))"
  using labels_written_account_none [of g authMe orders]
  by (simp add: labels_written_cycle_calls)

lemma shard_gauges_dom:
  fixes env :: "('f::zero) env"
  assumes ok: "\<not> cycle_fails env"
    and authMe: "fst (getStatsFromAuthMe env) = Inr authMe"
    and orders: "fst (getMarketOrders env) = Inr orders"
  shows "g \<in> {tick, ms, resetTick, resetMs} \<Longrightarrow>
       dom (gauges (store (updateStats env w)) g)
         = dom (gauges (store w) g) \<union> {[(''shard'', shard)] | shard. shard \<in> set (shards env)}"
    and "dom (gauges (store (updateStats env w)) cpu)
         = dom (gauges (store w) cpu)
           \<union> {[(''shard'', shard), (''type'', typ)] | shard typ.
                shard \<in> set (shards env) \<and> typ \<in> {''used'', ''limit'', ''bucket''}}"
    and "g \<in> {gcl, gpl} \<Longrightarrow>
       dom (gauges (store (updateStats env w)) g)
         = dom (gauges (store w) g)
           \<union> {[(''shard'', shard), (''type'', typ)] | shard typ.
                shard \<in> set (shards env) \<and> typ \<in> {''level'', ''progress'', ''progressTotal''}}"
proof -
  {
    assume g: "g \<in> {tick, ms, resetTick, resetMs}"
    then have sg: "g \<in> shard_gauges" by (auto simp: shard_gauges_def)
    have "dom (gauges (store (updateStats env w)) g)
        = dom (gauges (store w) g) \<union> (\<Union>shard\<in>set (shards env). {[(''shard'', shard)]})"
      using sg
      by (simp add: dom_after_success [OF assms] shard_gauges_not_reset labels_written_shards
          labels_written_tick [OF g] del: list.inject)
    then show "dom (gauges (store (updateStats env w)) g)
         = dom (gauges (store w) g) \<union> {[(''shard'', shard)] | shard. shard \<in> set (shards env)}"
      by (simp only: Union_singleton_comprehension)
  }
  have sg: "cpu \<in> shard_gauges" by (simp add: shard_gauges_def)
  have "dom (gauges (store (updateStats env w)) cpu)
      = dom (gauges (store w) cpu)
        \<union> (\<Union>shard\<in>set (shards env).
             (\<lambda>typ. [(''shard'', shard), (''type'', typ)]) ` {''used'', ''limit'', ''bucket''})"
    using sg
    by (simp add: dom_after_success [OF assms] shard_gauges_not_reset labels_written_shards
        labels_written_cpu del: list.inject image_insert)
  then show "dom (gauges (store (updateStats env w)) cpu)
         = dom (gauges (store w) cpu)
           \<union> {[(''shard'', shard), (''type'', typ)] | shard typ.
                shard \<in> set (shards env) \<and> typ \<in> {''used'', ''limit'', ''bucket''}}"
    by (simp only: Union_image_comprehension
        [where f = "\<lambda>shard typ. [(''shard'', shard), (''type'', typ)]"])
  {
    assume g: "g \<in> {gcl, gpl}"
    then have sg: "g \<in> shard_gauges" by (auto simp: shard_gauges_def)
    have "dom (gauges (store (updateStats env w)) g)
        = dom (gauges (store w) g)
          \<union> (\<Union>shard\<in>set (shards env).
               (\<lambda>typ. [(''shard'', shard), (''type'', typ)]) ` {''level'', ''progress'', ''progressTotal''})"
      using sg
      by (simp add: dom_after_success [OF assms] shard_gauges_not_reset labels_written_shards
          labels_written_gcl [OF g] del: list.inject image_insert)
    then show "dom (gauges (store (updateStats env w)) g)
         = dom (gauges (store w) g)
           \<union> {[(''shard'', shard), (''type'', typ)] | shard typ.
                shard \<in> set (shards env) \<and> typ \<in> {''level'', ''progress'', ''progressTotal''}}"
      by (simp only: Union_image_comprehension
          [where f = "\<lambda>shard typ. [(''shard'', shard), (''type'', typ)]"])
  }
qed

lemma shard_gauges_other_series_kept:
  fixes env :: "('f::zero) env"
  assumes ok: "\<not> cycle_fails env"
    and g: "g \<in> shard_gauges"
    and l: "\<not> list_ex (\<lambda>shard. map_of l ''shard'' = Some shard) (shards env)"
  shows "gauges (store (updateStats env w)) g l = gauges (store w) g l"
proof -
  from ok obtain authMe orders where a: "fst (getStatsFromAuthMe env) = Inr authMe"
    and b: "fst (getMarketOrders env) = Inr orders"
    by (rule cycle_succeeds_obtain)
  have "l \<notin> labels_written g (cycle_calls env authMe orders)"
  proof
    assume "l \<in> labels_written g (cycle_calls env authMe orders)"
    then obtain shard where "shard \<in> set (shards env)"
      and "l \<in> labels_written g (shard_calls shard (segment_stats env shard))"
      using g by (auto simp: labels_written_shards)
    then show False
      using l labels_written_shard_calls_shard [of l g shard] by (auto simp: list_ex_iff)
  qed
  then show ?thesis
    using unwritten_after_success [OF ok a b shard_gauges_not_reset [OF g]] by simp
qed

lemma room_gauges_reset: "g \<in> room_gauges \<Longrightarrow> g \<in> reset_gauges"
  by (auto simp: room_gauges_def reset_gauges_def)

lemma absent_room_segment:
  fixes env :: "('f::zero) env"
  assumes ok: "\<not> cycle_fails env"
    and r: "\<not> list_ex (\<lambda>shard. r \<in> fst ` set (Rooms (segment_stats env shard))) (shards env)"
    and g: "g \<in> room_gauges"
    and l: "map_of l ''room'' = Some r"
  shows "gauges (store (updateStats env w)) g l = None"
proof -
  from ok obtain authMe orders where a: "fst (getStatsFromAuthMe env) = Inr authMe"
    and b: "fst (getMarketOrders env) = Inr orders"
    by (rule cycle_succeeds_obtain)
  have "l \<notin> dom (gauges (store (updateStats env w)) g)"
  proof
    assume "l \<in> dom (gauges (store (updateStats env w)) g)"
    then have "l \<in> labels_written g (cycle_calls env authMe orders)"
      using g by (simp add: dom_after_success [OF ok a b] room_gauges_reset)
    then obtain shard where s: "shard \<in> set (shards env)"
      and "l \<in> labels_written g (shard_calls shard (segment_stats env shard))"
      using g by (auto simp: labels_written_shards)
    then obtain name where "name \<in> fst ` set (Rooms (segment_stats env shard))"
      and "map_of l ''room'' = Some name"
      using labels_written_shard_calls_room [of l g shard "segment_stats env shard"] g by blast
    with l s r show False by (auto simp: list_ex_iff)
  qed
  then show ?thesis by (simp add: domIff)
qed

section \<open>The history exporter: decoding and rooms\<close>

lemma TrimPrefix_strip_marker: "TrimPrefix field ''gz:'' = strip_marker field"
  by (auto simp: TrimPrefix_def HasPrefix_def strip_marker_def split: list.splits)

lemma TrimPrefix_marker: "TrimPrefix (''gz:'' @ s) ''gz:'' = s"
  by (simp add: TrimPrefix_def HasPrefix_def)

lemma TrimPrefix_no_marker: "\<not> HasPrefix s ''gz:'' \<Longrightarrow> TrimPrefix s ''gz:'' = s"
  by (simp add: TrimPrefix_def)

lemma index_last:
  "xs \<noteq> [] \<Longrightarrow>
     0 \<le> int (length xs) - 1 \<and> int (length xs) - 1 < int (length xs)
     \<and> xs ! nat (int (length xs) - 1) = last xs"
  by (cases xs rule: rev_cases) (simp_all add: nth_append)

lemma current_stats_spec:
  assumes "decode_history_spec env field = Some stats"
  shows "current_stats env field = Returns (Inr stats)"
proof -
  from assms obtain z r memory where z: "base64_DecodeString env (strip_marker field) = Inr z"
    and r: "gzip_NewReader env z = Inr r" and m: "decode_Memory env r = Inr memory"
    and h: "Stats_History memory \<noteq> []" and s: "stats = last (Stats_History memory)"
    by (auto simp: decode_history_spec_def split: sum.splits if_splits)
  show ?thesis
    using index_last [OF h]
    by (simp add: current_stats_def TrimPrefix_strip_marker z r m s Let_def)
qed

lemma current_stats_empty:
  assumes "base64_DecodeString env (TrimPrefix field ''gz:'') = Inr z"
    and "gzip_NewReader env z = Inr r" and "decode_Memory env r = Inr memory"
    and "Stats_History memory = []"
  shows "current_stats env field = Panics ''runtime error: index out of range [-1]''"
  using assms by (simp add: current_stats_def)

lemma updateStats_gz_fetch:
  "updateStats_gz env w =
     (case fetch_gz env of
        Panics msg \<Rightarrow> Panics msg
      | Returns (Inl err) \<Rightarrow> Returns (Println err [memory_url env] w)
      | Returns (Inr stats) \<Rightarrow>
          Returns (w\<lparr>store := exec (publish_gz env stats) (store w),
                     requests := requests w @ [memory_url env]\<rparr>))"
  by (simp add: updateStats_gz_def fetch_gz_def split: sum.splits)

lemma room_calls_gz_labels:
  "c \<in> set (room_calls_gz env name room) \<Longrightarrow>
     \<exists>g l v. c = WithSet g l v \<and> map_of l ''room'' = Some name"
  unfolding room_calls_gz_def by auto

lemma rooms_gz_no_reset:
  "Reset g \<notin> set (concat (map (\<lambda>(name, room). room_calls_gz env name room) rooms))"
  by (auto dest: room_calls_gz_labels)

lemma labels_written_rooms_gz:
  assumes "l \<in> labels_written g (concat (map (\<lambda>(name, room). room_calls_gz env name room) rooms))"
  shows "\<exists>name\<in>fst ` set rooms. map_of l ''room'' = Some name"
proof -
  from assms obtain v name room where "(name, room) \<in> set rooms"
    and "WithSet g l v \<in> set (room_calls_gz env name room)"
    by (auto simp: labels_written_def)
  then show ?thesis
    using room_calls_gz_labels [of "WithSet g l v" env name room] by force
qed

lemma gauges_publish_gz:
  assumes "g \<in> room_gauges_gz"
  shows "gauges (exec (publish_gz env stats) st) g
     = fold (effect g) (concat (map (\<lambda>(name, room). room_calls_gz env name room) (Rooms_gz stats)))
         Map.empty"
  using assms
  by (auto simp: publish_gz_def gauges_exec room_gauges_gz_def simp del: list.inject)

lemma absent_room_history:
  assumes f: "fetch_gz env = Returns (Inr stats)"
    and r: "r \<notin> fst ` set (Rooms_gz stats)"
    and g: "g \<in> room_gauges_gz"
    and l: "map_of l ''room'' = Some r"
  shows "\<exists>w'. updateStats_gz env w = Returns w' \<and> gauges (store w') g l = None"
proof -
  let ?w = "w\<lparr>store := exec (publish_gz env stats) (store w), requests := requests w @ [memory_url env]\<rparr>"
  have u: "updateStats_gz env w = Returns ?w"
    by (simp add: updateStats_gz_fetch f)
  have "l \<notin> dom (gauges (store ?w) g)"
  proof
    assume "l \<in> dom (gauges (store ?w) g)"
    then have "l \<in> labels_written g
        (concat (map (\<lambda>(name, room). room_calls_gz env name room) (Rooms_gz stats)))"
      by (simp add: gauges_publish_gz [OF g] dom_fold_effect_written [OF rooms_gz_no_reset])
    then obtain name where "name \<in> fst ` set (Rooms_gz stats)" and "map_of l ''room'' = Some name"
      using labels_written_rooms_gz by blast
    with l r show False by simp
  qed
  then have "gauges (store ?w) g l = None" by (simp add: domIff)
  with u show ?thesis by blast
qed

lemma fetch_gz_spec:
  assumes "client_Do_gz env (memory_url env) (token_gz env) = Inr body"
    and "decode_MemoryResponse_gz env body = Inr memoryResponse"
    and "decode_history_spec env (Data_gz memoryResponse) = Some stats"
  shows "fetch_gz env = Returns (Inr stats)"
  using assms by (simp add: fetch_gz_def current_stats_spec)

lemma current_stats_encoded:
  assumes b64: "base64_DecodeString env (encode (compress (marshal memory))) = Inr (compress (marshal memory))"
    and gz: "gzip_NewReader env (compress (marshal memory)) = Inr r"
    and json: "decode_Memory env r = Inr memory"
    and alphabet: "\<not> HasPrefix (encode (compress (marshal memory))) ''gz:''"
    and hist: "Stats_History memory = earlier @ [stats]"
  shows "current_stats env (encode_history marshal compress encode marker memory) = Returns (Inr stats)"
proof -
  have t: "TrimPrefix (encode_history marshal compress encode marker memory) ''gz:''
      = encode (compress (marshal memory))"
  proof (cases marker)
    case True
    then show ?thesis by (simp add: encode_history_def TrimPrefix_def HasPrefix_def)
  next
    case False
    then show ?thesis using alphabet by (simp add: encode_history_def TrimPrefix_no_marker)
  qed
  have h: "Stats_History memory \<noteq> []" using hist by simp
  show ?thesis
    using index_last [OF h] hist
    by (simp add: current_stats_def t b64 gz json Let_def)
qed

section \<open>What a cycle leaves behind\<close>

lemma store_kept_on_failure:
  fixes env :: "('f::zero) env"
  assumes "cycle_fails env"
  shows "store (updateStats env w) = store w"
    and "histogram (store (updateStats env w)) = histogram (store w)"
    and "\<exists>err. stdout (updateStats env w) = stdout w @ [err]"
proof -
  from updateStats_fails [OF assms, of w]
  obtain err where u: "updateStats env w = Println err (fetched_urls env) w" ..
  show "store (updateStats env w) = store w" by (simp add: u Println_def)
  then show "histogram (store (updateStats env w)) = histogram (store w)" by simp
  show "\<exists>err. stdout (updateStats env w) = stdout w @ [err]" by (simp add: u Println_def)
qed

lemma requests_updateStats:
  fixes env :: "('f::zero) env"
  shows "requests (updateStats env w) = requests w @ fetched_urls env"
proof (cases "cycle_fails env")
  case True
  from updateStats_fails [OF True, of w]
  obtain err where "updateStats env w = Println err (fetched_urls env) w" ..
  then show ?thesis by (simp add: Println_def)
next
  case False
  then obtain authMe orders where "fst (getStatsFromAuthMe env) = Inr authMe"
    and "fst (getMarketOrders env) = Inr orders"
    by (rule cycle_succeeds_obtain)
  from updateStats_succeeds [OF False this, of w] show ?thesis by simp
qed

lemma histogram_on_success:
  fixes env :: "('f::zero) env"
  assumes "\<not> cycle_fails env"
  shows "histogram (store (updateStats env w)) = histogram (store w) @ [since_start env]"
    and "stdout (updateStats env w) = stdout w"
proof -
  from assms obtain authMe orders where "fst (getStatsFromAuthMe env) = Inr authMe"
    and "fst (getMarketOrders env) = Inr orders"
    by (rule cycle_succeeds_obtain)
  note u = updateStats_succeeds [OF assms this, of w]
  show "histogram (store (updateStats env w)) = histogram (store w) @ [since_start env]"
    by (simp add: u histogram_exec observations_cycle_calls resets_def)
  show "stdout (updateStats env w) = stdout w"
    by (simp add: u)
qed

lemma shards_calls_writes:
  "c \<in> set (shards_calls configured statsMap) \<Longrightarrow> \<exists>g l v. c = WithSet g l v"
  by (auto simp: in_shards_calls dest!: shard_calls_shape room_calls_shape)

lemma publish_resets:
  "Reset g \<in> set (publish env authMe orders statsMap) \<longleftrightarrow> g \<in> reset_gauges"
proof -
  have "Reset g \<notin> set (cpuShard_calls authMe)" by (auto simp: in_cpuShard_calls)
  moreover have "Reset g \<notin> set (resources_calls authMe)" by (auto simp: in_resources_calls)
  moreover have "Reset g \<notin> set (marketOrders_calls orders)"
    by (auto simp: in_marketOrders_calls dest: order_calls_writes)
  moreover have "Reset g \<notin> set (shards_calls (shards env) statsMap)"
    by (auto dest: shards_calls_writes)
  moreover have "Reset g \<in> set resets \<longleftrightarrow> g \<in> reset_gauges"
    by (auto simp: resets_def reset_gauges_def)
  ultimately show ?thesis by (simp add: publish_def)
qed

lemma first_call_is_reset:
  assumes "g \<in> reset_gauges"
  shows "\<exists>cs. [c \<leftarrow> publish env authMe orders statsMap. on c = Some g] = Reset g # cs
           \<and> Reset g \<notin> set cs"
proof -
  let ?rest = "cpuShard_calls authMe @ resources_calls authMe @ marketOrders_calls orders
     @ shards_calls (shards env) statsMap @ [Observe (since_start env)]"
  have r: "[c \<leftarrow> resets. on c = Some g] = [Reset g]"
    using assms by (auto simp: resets_def reset_gauges_def)
  have "Reset g \<notin> set ?rest"
    using publish_resets [of g env authMe orders statsMap]
    by (auto simp: in_cpuShard_calls in_resources_calls in_marketOrders_calls
        dest: order_calls_writes shards_calls_writes)
  then have "Reset g \<notin> set [c \<leftarrow> ?rest. on c = Some g]" by simp
  moreover have "[c \<leftarrow> publish env authMe orders statsMap. on c = Some g]
      = Reset g # [c \<leftarrow> ?rest. on c = Some g]"
    unfolding publish_def filter_append r by simp
  ultimately show ?thesis by blast
qed

lemma first_call_is_reset_gz:
  assumes "g \<in> room_gauges_gz"
  shows "\<exists>cs. [c \<leftarrow> publish_gz env stats. on c = Some g] = Reset g # cs \<and> Reset g \<notin> set cs"
proof -
  let ?rooms = "concat (map (\<lambda>(name, room). room_calls_gz env name room) (Rooms_gz stats))"
  have "[c \<leftarrow> publish_gz env stats. on c = Some g] = Reset g # [c \<leftarrow> ?rooms. on c = Some g]"
    using assms unfolding publish_gz_def room_gauges_gz_def
    by (auto simp del: list.inject)
  moreover have "Reset g \<notin> set [c \<leftarrow> ?rooms. on c = Some g]"
    using rooms_gz_no_reset [of g env "Rooms_gz stats"] by simp
  ultimately show ?thesis by blast
qed

section \<open>The per-shard gauges in a run\<close>

lemma labels_written_shard_series:
  assumes "g \<in> shard_gauges"
  shows "(\<Union>shard\<in>set configured. labels_written g (shard_calls shard (stats shard)))
     = shard_series g configured"
proof -
  from assms consider "g \<in> {tick, ms, resetTick, resetMs}" | "g = cpu" | "g \<in> {gcl, gpl}"
    by (auto simp: shard_gauges_def)
  then show ?thesis
  proof cases
    case 1
    then show ?thesis
      by (simp only: labels_written_tick [OF 1] shard_series_def if_True)
  next
    case 2
    then have "g \<notin> {tick, ms, resetTick, resetMs}" by simp
    with 2 show ?thesis
      by (simp only: labels_written_cpu shard_series_def if_True if_False simp_thms)
  next
    case 3
    then have "g \<notin> {tick, ms, resetTick, resetMs}" "g \<noteq> cpu" by auto
    with 3 show ?thesis
      by (simp only: labels_written_gcl [OF 3] shard_series_def if_True if_False simp_thms)
  qed
qed

lemma dom_shard_gauge_success:
  fixes env :: "('f::zero) env"
  assumes ok: "\<not> cycle_fails env" and g: "g \<in> shard_gauges"
  shows "dom (gauges (store (updateStats env w)) g)
     = dom (gauges (store w) g) \<union> shard_series g (shards env)"
proof -
  from ok obtain authMe orders where a: "fst (getStatsFromAuthMe env) = Inr authMe"
    and b: "fst (getMarketOrders env) = Inr orders"
    by (rule cycle_succeeds_obtain)
  have "g \<in> shard_gauges \<union> room_gauges" using g by simp
  then have "labels_written g (cycle_calls env authMe orders) = shard_series g (shards env)"
    by (simp only: labels_written_shards labels_written_shard_series [OF g])
  then show ?thesis
    using shard_gauges_not_reset [OF g] by (simp add: dom_after_success [OF ok a b])
qed

lemma run_keeps_shard_series:
  fixes envs :: "('f::zero) env list"
  assumes "list_all (\<lambda>e. shards e = configured) envs"
    and "g \<in> shard_gauges"
    and "dom (gauges (store w) g) \<subseteq> shard_series g configured"
  shows "dom (gauges (store (run envs w)) g) \<subseteq> shard_series g configured"
  using assms
proof (induction envs arbitrary: w)
  case Nil
  then show ?case by simp
next
  case (Cons env envs)
  from Cons.prems(1) have s: "shards env = configured" and rest: "list_all (\<lambda>e. shards e = configured) envs"
    by simp_all
  have "dom (gauges (store (updateStats env w)) g) \<subseteq> shard_series g configured"
  proof (cases "cycle_fails env")
    case True
    then show ?thesis using Cons.prems(3) by (simp add: store_kept_on_failure(1))
  next
    case False
    then show ?thesis
      using Cons.prems(3) s by (simp add: dom_shard_gauge_success [OF False Cons.prems(2)])
  qed
  then show ?case
    using Cons.IH [OF rest Cons.prems(2)] by simp
qed

lemma dom_shard_gauge_run:
  fixes env :: "('f::zero) env"
  assumes "list_all (\<lambda>e. shards e = shards env) envs"
    and "\<not> cycle_fails env" and "g \<in> shard_gauges"
  shows "dom (gauges (store (updateStats env (run envs startup))) g) = shard_series g (shards env)"
proof -
  have "dom (gauges (store (startup :: 'f world)) g) \<subseteq> shard_series g (shards env)"
    by (simp add: startup_def)
  then have "dom (gauges (store (run envs startup)) g) \<subseteq> shard_series g (shards env)"
    by (rule run_keeps_shard_series [OF assms(1,3)])
  then show ?thesis
    by (auto simp: dom_shard_gauge_success [OF assms(2,3)])
qed

section \<open>The example cycles, evaluated\<close>

lemmas example_defs = example_env_def env_no_rooms_def env_failing_def segment_body_def
  auth_me_url_def my_orders_url_def memory_segment_url_def
  getStatsFromAuthMe_def getMarketOrders_def getStatsFromMemorySegment_def

lemma env_no_rooms_account: "fst (getStatsFromAuthMe env_no_rooms) = Inr account_example"
  by (simp add: example_defs)

lemma env_no_rooms_orders: "fst (getMarketOrders env_no_rooms) = Inr orders_example"
  by (simp add: example_defs)

lemma env_no_rooms_segment: "fst (getStatsFromMemorySegment env_no_rooms ''shard0'') = Inr zero_Stats"
  by (simp add: example_defs)

lemma env_no_rooms_shards: "shards env_no_rooms = [''shard0'']"
  by (simp add: example_defs)

lemma env_no_rooms_succeeds: "\<not> cycle_fails env_no_rooms"
  by (simp add: cycle_fails_def segment_ok_def env_no_rooms_account env_no_rooms_orders
      env_no_rooms_segment env_no_rooms_shards)

lemma env_no_rooms_stats: "segment_stats env_no_rooms ''shard0'' = zero_Stats"
  by (simp add: segment_stats_def env_no_rooms_segment)

lemma env_failing_account: "fst (getStatsFromAuthMe env_failing) = Inr account_example"
  by (simp add: example_defs)

lemma env_failing_orders: "fst (getMarketOrders env_failing) = Inr orders_example"
  by (simp add: example_defs)

lemma env_failing_shard0:
  "fst (getStatsFromMemorySegment env_failing ''shard0'')
     = Inl ''invalid character h looking for beginning of value''"
  by (simp add: example_defs)

lemma env_failing_shard1: "fst (getStatsFromMemorySegment env_failing ''shard1'') = Inr zero_Stats"
  by (simp add: example_defs)

lemma env_failing_shards: "shards env_failing = [''shard0'', ''shard1'']"
  by (simp add: example_defs)

lemma env_failing_fails: "cycle_fails env_failing"
  by (simp add: cycle_fails_def segment_ok_def env_failing_shards env_failing_shard0)

lemma env_failing_urls:
  "fetched_urls env_failing
     = [''https://screeps.com/api/auth/me'', ''https://screeps.com/api/game/market/my-orders'',
        ''https://screeps.com/api/user/memory-segment?segment=0&shard=shard0'']"
  by (simp add: fetched_urls_def segment_ok_def env_failing_account env_failing_orders
      env_failing_shards env_failing_shard0)
     (simp add: example_defs)

lemma base64_distinct:
  "base64_norooms \<noteq> base64_rooms" "base64_empty \<noteq> base64_rooms" "base64_empty \<noteq> base64_norooms"
  by (simp_all add: base64_rooms_def base64_norooms_def base64_empty_def)

lemma gzip_distinct:
  "gzip_norooms \<noteq> gzip_rooms" "gzip_empty \<noteq> gzip_rooms" "gzip_empty \<noteq> gzip_norooms"
  by (simp_all add: gzip_rooms_def gzip_norooms_def gzip_empty_def)

lemma doc_distinct:
  "doc_norooms \<noteq> doc_rooms" "doc_empty \<noteq> doc_rooms" "doc_empty \<noteq> doc_norooms"
  by (simp_all add: doc_rooms_def doc_norooms_def doc_empty_def)

lemma base64_no_marker:
  "\<not> HasPrefix base64_rooms ''gz:''" "\<not> HasPrefix base64_norooms ''gz:''"
  "\<not> HasPrefix base64_empty ''gz:''"
  by (simp_all add: HasPrefix_def base64_rooms_def base64_norooms_def base64_empty_def)

lemma TrimPrefix_examples:
  "TrimPrefix (''gz:'' @ s) ''gz:'' = s"
  "TrimPrefix base64_rooms ''gz:'' = base64_rooms"
  "TrimPrefix base64_norooms ''gz:'' = base64_norooms"
  "TrimPrefix base64_empty ''gz:'' = base64_empty"
  by (simp_all add: TrimPrefix_no_marker base64_no_marker) (simp add: TrimPrefix_def HasPrefix_def)

lemma example_env_gz_fields:
  "client_Do_gz (example_env_gz text) (memory_url (example_env_gz text)) (token_gz (example_env_gz text))
     = Inr (memory_body text)"
  "decode_MemoryResponse_gz (example_env_gz text) (memory_body text) = Inr \<lparr>Ok_gz = 1, Data_gz = text\<rparr>"
  "base64_DecodeString (example_env_gz text) base64_rooms = Inr gzip_rooms"
  "base64_DecodeString (example_env_gz text) base64_norooms = Inr gzip_norooms"
  "base64_DecodeString (example_env_gz text) base64_empty = Inr gzip_empty"
  "gzip_NewReader (example_env_gz text) gzip_rooms = Inr doc_rooms"
  "gzip_NewReader (example_env_gz text) gzip_norooms = Inr doc_norooms"
  "gzip_NewReader (example_env_gz text) gzip_empty = Inr doc_empty"
  "decode_Memory (example_env_gz text) doc_rooms = Inr memory_rooms"
  "decode_Memory (example_env_gz text) doc_norooms = Inr memory_norooms"
  "decode_Memory (example_env_gz text) doc_empty = Inr memory_empty"
  by (simp_all add: example_env_gz_def memory_url_def base64_distinct gzip_distinct doc_distinct)

lemma strip_marker_examples:
  "strip_marker (''gz:'' @ s) = s"
  by (simp add: strip_marker_def)

lemma spec_norooms:
  "decode_history_spec (example_env_gz (''gz:'' @ base64_norooms)) (''gz:'' @ base64_norooms)
     = Some (stats_tick 8 [])"
  by (simp add: decode_history_spec_def strip_marker_examples example_env_gz_fields memory_norooms_def
      del: append.simps)

lemma fetch_empty:
  "fetch_gz (example_env_gz (''gz:'' @ base64_empty)) = Panics ''runtime error: index out of range [-1]''"
  unfolding fetch_gz_def
  by (simp add: example_env_gz_fields memory_empty_def TrimPrefix_examples
      current_stats_empty [where z = gzip_empty and r = doc_empty and memory = memory_empty]
      del: append.simps)

lemma memory_distinct:
  "memory_norooms \<noteq> memory_rooms" "memory_empty \<noteq> memory_rooms" "memory_empty \<noteq> memory_norooms"
  by (simp_all add: memory_rooms_def memory_norooms_def memory_empty_def)

lemma example_encoders:
  "example_marshal memory_rooms = doc_rooms" "example_marshal memory_norooms = doc_norooms"
  "example_compress doc_rooms = gzip_rooms" "example_compress doc_norooms = gzip_norooms"
  "example_encode gzip_rooms = base64_rooms" "example_encode gzip_norooms = base64_norooms"
  by (simp_all add: example_marshal_def example_compress_def example_encode_def
      memory_distinct doc_distinct gzip_distinct)

lemma env_no_rooms_cycle:
  "updateStats env_no_rooms w
     = w\<lparr>store := exec (publish env_no_rooms account_example orders_example [(''shard0'', zero_Stats)])
                  (store w),
         requests := requests w @ [auth_me_url, my_orders_url, memory_segment_url env_no_rooms ''shard0'']\<rparr>"
proof -
  have a: "getStatsFromAuthMe env_no_rooms = (Inr account_example, [auth_me_url])"
    using getStatsFromAuthMe_eq [of env_no_rooms] env_no_rooms_account by simp
  have b: "getMarketOrders env_no_rooms = (Inr orders_example, [my_orders_url])"
    using getMarketOrders_eq [of env_no_rooms] env_no_rooms_orders by simp
  have ok: "segment_ok env_no_rooms ''shard0''"
    by (simp add: segment_ok_def env_no_rooms_segment)
  have c: "fetchShards env_no_rooms (shards env_no_rooms) []
      = (Inr [(''shard0'', zero_Stats)], [memory_segment_url env_no_rooms ''shard0''])"
    by (simp add: env_no_rooms_shards segment_ok_stats [OF ok] env_no_rooms_stats del: list.inject)
  show ?thesis
    by (simp add: updateStats_def a b c)
qed

lemma env_no_rooms_tick_calls:
  "[c \<leftarrow> publish env_no_rooms account_example orders_example [(''shard0'', zero_Stats)].
      on c = Some tick] = [WithSet tick [(''shard'', ''shard0'')] 0]"
proof -
  let ?P = "\<lambda>c::int call. on c = Some tick"
  have r: "filter ?P resets = []"
    by (simp add: resets_def)
  have a: "filter ?P (cpuShard_calls account_example) = []"
    by (rule filter_on_none) (auto dest: on_cpuShard_calls)
  have b: "filter ?P (resources_calls account_example) = []"
    by (rule filter_on_none) (auto dest: on_resources_calls)
  have m: "filter ?P (marketOrders_calls orders_example) = []"
    by (rule filter_on_none) (auto dest: on_marketOrders_calls)
  have i: "index [(''shard0'', zero_Stats :: int Stats)] ''shard0'' = zero_Stats"
    by (simp add: index_def)
  have s: "filter ?P (shards_calls (shards env_no_rooms) [(''shard0'', zero_Stats)])
      = [WithSet tick [(''shard'', ''shard0'')] 0]"
    by (simp add: shards_calls_def env_no_rooms_shards i del: list.inject)
       (simp add: shard_calls_def zero_Stats_def del: list.inject)
  show ?thesis
    by (simp add: publish_def r a b m s del: list.inject)
qed

section \<open>The claims\<close>

text \<open>
  Claim C1, as the code has it. In a cycle whose fetches all succeed, \<^verbatim>\<open>cpu_shard\<close>,
  \<^verbatim>\<open>resources\<close> and \<^verbatim>\<open>market_orders\<close> are reset before they are written. The gauges
  \<^verbatim>\<open>tick\<close>, \<^verbatim>\<open>ms\<close>, \<^verbatim>\<open>global_reset_tick\<close>, \<^verbatim>\<open>global_reset_ms\<close>, \<^verbatim>\<open>cpu\<close>, \<^verbatim>\<open>gcl\<close> and
  \<^verbatim>\<open>gpl\<close> are not reset: the cycle makes no reset call on them, and writes them for the
  configured shards only. In a run of the exporter, which starts from empty gauges and
  keeps its list of shards, each of these ten gauges holds after the cycle exactly the
  series whose labels occur in the state the cycle fetched.
\<close>

theorem successful_cycle_gauges:
  fixes env :: "('f::zero) env"
  assumes "list_all (\<lambda>e. shards e = shards env) envs"
    and "\<not> cycle_fails env"
    and "fst (getStatsFromAuthMe env) = Inr authMe"
    and "fst (getMarketOrders env) = Inr orders"
  shows "(\<forall>g\<in>{cpuShard, resources, marketOrders}. \<exists>cs.
            [c \<leftarrow> publish env authMe orders statsMap. on c = Some g] = Reset g # cs \<and> Reset g \<notin> set cs)
     \<and> (\<forall>g\<in>shard_gauges. Reset g \<notin> set (publish env authMe orders statsMap))
     \<and> dom (gauges (store (updateStats env (run envs startup))) cpuShard)
         = {[(''shard'', shard)] | shard. shard \<in> fst ` set (CPUShard authMe)}
     \<and> dom (gauges (store (updateStats env (run envs startup))) resources)
         = {[(''shard'', ''intershard''), (''type'', typ)] | typ.
              typ = ''money'' \<or> typ \<in> fst ` set (Resources authMe)}
     \<and> dom (gauges (store (updateStats env (run envs startup))) marketOrders)
         = {[(''shard'', shard), (''room'', RoomName order), (''type'', ResourceType order),
             (''order_type'', Type order), (''metric'', metric)] | shard os order metric.
              (shard, os) \<in> set (Shards orders) \<and> order \<in> set os
              \<and> metric \<in> {''price'', ''amount'', ''remainingAmount'', ''totalAmount''}}
     \<and> (\<forall>g\<in>{tick, ms, resetTick, resetMs}.
           dom (gauges (store (updateStats env (run envs startup))) g)
             = {[(''shard'', shard)] | shard. shard \<in> set (shards env)})
     \<and> dom (gauges (store (updateStats env (run envs startup))) cpu)
         = {[(''shard'', shard), (''type'', typ)] | shard typ.
              shard \<in> set (shards env) \<and> typ \<in> {''used'', ''limit'', ''bucket''}}
     \<and> (\<forall>g\<in>{gcl, gpl}.
           dom (gauges (store (updateStats env (run envs startup))) g)
             = {[(''shard'', shard), (''type'', typ)] | shard typ.
                  shard \<in> set (shards env) \<and> typ \<in> {''level'', ''progress'', ''progressTotal''}})"
proof -
  let ?w = "run envs startup"
  have a: "\<forall>g\<in>{cpuShard, resources, marketOrders}. \<exists>cs.
            [c \<leftarrow> publish env authMe orders statsMap. on c = Some g] = Reset g # cs \<and> Reset g \<notin> set cs"
    using first_call_is_reset [of _ env authMe orders statsMap] by (simp add: reset_gauges_def)
  have b: "\<forall>g\<in>shard_gauges. Reset g \<notin> set (publish env authMe orders statsMap)"
    by (simp add: publish_resets shard_gauges_not_reset)
  note d = account_gauges [OF assms(2-4), of ?w]
  have e: "\<forall>g\<in>{tick, ms, resetTick, resetMs}.
           dom (gauges (store (updateStats env ?w)) g)
             = {[(''shard'', shard)] | shard. shard \<in> set (shards env)}"
  proof
    fix g assume g: "g \<in> {tick, ms, resetTick, resetMs}"
    then have sg: "g \<in> shard_gauges" by (auto simp: shard_gauges_def)
    have "dom (gauges (store (updateStats env ?w)) g)
        = (\<Union>shard\<in>set (shards env). {[(''shard'', shard)]})"
      using g by (simp only: dom_shard_gauge_run [OF assms(1,2) sg] shard_series_def if_True)
    then show "dom (gauges (store (updateStats env ?w)) g)
        = {[(''shard'', shard)] | shard. shard \<in> set (shards env)}"
      by (simp only: Union_singleton_comprehension)
  qed
  have c: "dom (gauges (store (updateStats env ?w)) cpu)
         = {[(''shard'', shard), (''type'', typ)] | shard typ.
              shard \<in> set (shards env) \<and> typ \<in> {''used'', ''limit'', ''bucket''}}"
  proof -
    have sg: "cpu \<in> shard_gauges" by (simp add: shard_gauges_def)
    have n: "cpu \<notin> {tick, ms, resetTick, resetMs}" by simp
    have "dom (gauges (store (updateStats env ?w)) cpu)
        = (\<Union>shard\<in>set (shards env).
             (\<lambda>typ. [(''shard'', shard), (''type'', typ)]) ` {''used'', ''limit'', ''bucket''})"
      using n by (simp only: dom_shard_gauge_run [OF assms(1,2) sg] shard_series_def if_True if_False simp_thms)
    then show ?thesis
      by (simp only: Union_image_comprehension
          [where f = "\<lambda>shard typ. [(''shard'', shard), (''type'', typ)]"])
  qed
  have f: "\<forall>g\<in>{gcl, gpl}.
           dom (gauges (store (updateStats env ?w)) g)
             = {[(''shard'', shard), (''type'', typ)] | shard typ.
                  shard \<in> set (shards env) \<and> typ \<in> {''level'', ''progress'', ''progressTotal''}}"
  proof
    fix g assume g: "g \<in> {gcl, gpl}"
    then have sg: "g \<in> shard_gauges" by (auto simp: shard_gauges_def)
    from g have n: "g \<notin> {tick, ms, resetTick, resetMs}" "g \<noteq> cpu" by auto
    have "dom (gauges (store (updateStats env ?w)) g)
        = (\<Union>shard\<in>set (shards env).
             (\<lambda>typ. [(''shard'', shard), (''type'', typ)]) ` {''level'', ''progress'', ''progressTotal''})"
      using g n by (simp only: dom_shard_gauge_run [OF assms(1,2) sg] shard_series_def if_True if_False simp_thms)
    then show "dom (gauges (store (updateStats env ?w)) g)
        = {[(''shard'', shard), (''type'', typ)] | shard typ.
             shard \<in> set (shards env) \<and> typ \<in> {''level'', ''progress'', ''progressTotal''}}"
      by (simp only: Union_image_comprehension
          [where f = "\<lambda>shard typ. [(''shard'', shard), (''type'', typ)]"])
  qed
  show ?thesis
    by (intro conjI a b c d e f)
qed

theorem successful_cycle_gauges_witness:
  "list_all (\<lambda>e. shards e = shards env_no_rooms) [env_no_rooms, env_no_rooms]
   \<and> \<not> cycle_fails env_no_rooms
   \<and> fst (getStatsFromAuthMe env_no_rooms) = Inr account_example
   \<and> fst (getMarketOrders env_no_rooms) = Inr orders_example
   \<and> dom (gauges (store (updateStats env_no_rooms (run [env_no_rooms, env_no_rooms] startup))) cpuShard)
       = {[(''shard'', shard)] | shard. shard \<in> fst ` set (CPUShard account_example)}
   \<and> dom (gauges (store (updateStats env_no_rooms (run [env_no_rooms, env_no_rooms] startup))) cpu)
       = {[(''shard'', shard), (''type'', typ)] | shard typ.
            shard \<in> set (shards env_no_rooms) \<and> typ \<in> {''used'', ''limit'', ''bucket''}}"
proof -
  have h: "list_all (\<lambda>e. shards e = shards env_no_rooms) [env_no_rooms, env_no_rooms]"
    by simp
  note t = successful_cycle_gauges [OF h env_no_rooms_succeeds env_no_rooms_account env_no_rooms_orders,
      of "[]"]
  from t have "dom (gauges (store (updateStats env_no_rooms (run [env_no_rooms, env_no_rooms] startup))) cpuShard)
       = {[(''shard'', shard)] | shard. shard \<in> fst ` set (CPUShard account_example)}"
    by (elim conjE)
  moreover from t have "dom (gauges (store (updateStats env_no_rooms (run [env_no_rooms, env_no_rooms] startup))) cpu)
       = {[(''shard'', shard), (''type'', typ)] | shard typ.
            shard \<in> set (shards env_no_rooms) \<and> typ \<in> {''used'', ''limit'', ''bucket''}}"
    by (elim conjE)
  ultimately show ?thesis
    using h env_no_rooms_succeeds env_no_rooms_account env_no_rooms_orders by (intro conjI)
qed

text \<open>
  Claim C1 as stated fails for the gauges written once per shard: they are not reset. In
  the successful cycle of the example, started from empty gauges, the calls are those of
  \<open>publish\<close>; no reset of \<^verbatim>\<open>tick\<close> is among them, and the one call on \<^verbatim>\<open>tick\<close> is the
  write for \<^verbatim>\<open>shard0\<close>.
\<close>

theorem tick_not_reset_counterexample:
  "\<not> cycle_fails env_no_rooms
   \<and> updateStats env_no_rooms world_start
       = world_start\<lparr>store :=
           exec (publish env_no_rooms account_example orders_example [(''shard0'', zero_Stats)])
             (store world_start),
           requests := requests world_start
             @ [auth_me_url, my_orders_url, memory_segment_url env_no_rooms ''shard0'']\<rparr>
   \<and> Reset tick \<notin> set (publish env_no_rooms account_example orders_example [(''shard0'', zero_Stats)])
   \<and> [c \<leftarrow> publish env_no_rooms account_example orders_example [(''shard0'', zero_Stats)].
         on c = Some tick] = [WithSet tick [(''shard'', ''shard0'')] 0]"
proof -
  have "Reset tick \<notin> set (publish env_no_rooms account_example orders_example [(''shard0'', zero_Stats)])"
    by (simp add: publish_resets reset_gauges_def)
  then show ?thesis
    using env_no_rooms_succeeds env_no_rooms_cycle [of world_start] env_no_rooms_tick_calls
    by (intro conjI)
qed

text \<open>
  Claim C2. In a cycle whose fetches all succeed, every gauge with a room label is reset
  before it is written: the first call of the cycle on the gauge is its reset, and no
  other reset of it follows. After the cycle a room that is in the rooms of no configured
  shard (segment exporter), or not in the rooms of the current snapshot (history
  exporter), has no series in \<^verbatim>\<open>rcl\<close>, \<^verbatim>\<open>energy\<close>, \<^verbatim>\<open>creeps\<close>, \<^verbatim>\<open>structures\<close> or
  \<^verbatim>\<open>storage\<close> (nor in \<^verbatim>\<open>terminal\<close>, for the segment exporter), whatever series the store
  held before the cycle.
\<close>

theorem absent_room_has_no_series:
  fixes env :: "('f::zero) env" and env' :: "('f, 'r) env_gz"
  shows "(g \<in> room_gauges \<longrightarrow>
            (\<exists>cs. [c \<leftarrow> publish env authMe orders statsMap. on c = Some g] = Reset g # cs
               \<and> Reset g \<notin> set cs))
     \<and> (\<not> cycle_fails env
          \<and> \<not> list_ex (\<lambda>shard. r \<in> fst ` set (Rooms (segment_stats env shard))) (shards env)
          \<and> g \<in> room_gauges \<and> map_of l ''room'' = Some r \<longrightarrow>
            gauges (store (updateStats env w)) g l = None)
     \<and> (g \<in> room_gauges_gz \<longrightarrow>
            (\<exists>cs. [c \<leftarrow> publish_gz env' stats. on c = Some g] = Reset g # cs \<and> Reset g \<notin> set cs))
     \<and> (fetch_gz env' = Returns (Inr stats) \<and> r \<notin> fst ` set (Rooms_gz stats)
          \<and> g \<in> room_gauges_gz \<and> map_of l ''room'' = Some r \<longrightarrow>
            (\<exists>w''. updateStats_gz env' w' = Returns w'' \<and> gauges (store w'') g l = None))"
  using first_call_is_reset [OF room_gauges_reset, of g env authMe orders statsMap]
    absent_room_segment [of env r g l w]
    first_call_is_reset_gz [of g env' stats]
    absent_room_history [of env' stats r g l w']
  by blast

theorem absent_room_has_no_series_witness:
  "gauges (store world_W1N1) creeps [(''shard'', ''shard0''), (''room'', ''W1N1'')] = Some 5
   \<and> \<not> cycle_fails env_no_rooms
   \<and> \<not> list_ex (\<lambda>shard. ''W1N1'' \<in> fst ` set (Rooms (segment_stats env_no_rooms shard)))
         (shards env_no_rooms)
   \<and> creeps \<in> room_gauges
   \<and> map_of [(''shard'', ''shard0''), (''room'', ''W1N1'')] ''room'' = Some ''W1N1''
   \<and> gauges (store (updateStats env_no_rooms world_W1N1)) creeps
        [(''shard'', ''shard0''), (''room'', ''W1N1'')] = None
   \<and> creeps \<in> room_gauges_gz
   \<and> fetch_gz (example_env_gz (''gz:'' @ base64_norooms)) = Returns (Inr (stats_tick 8 []))
   \<and> ''W1N1'' \<notin> fst ` set (Rooms_gz (stats_tick 8 []))
   \<and> (\<exists>w''. updateStats_gz (example_env_gz (''gz:'' @ base64_norooms)) world_W1N1 = Returns w''
         \<and> gauges (store w'') creeps [(''shard'', ''shard0''), (''room'', ''W1N1'')] = None)"
proof -
  let ?l = "[(''shard'', ''shard0''), (''room'', ''W1N1'')]"
  let ?e = "example_env_gz (''gz:'' @ base64_norooms)"
  have h0: "gauges (store world_W1N1) creeps ?l = Some 5"
    by (simp add: world_W1N1_def world_start_def exec_def)
  have h1: "\<not> list_ex (\<lambda>shard. ''W1N1'' \<in> fst ` set (Rooms (segment_stats env_no_rooms shard)))
         (shards env_no_rooms)"
    by (simp add: env_no_rooms_shards env_no_rooms_stats zero_Stats_def)
  have h2: "creeps \<in> room_gauges" "creeps \<in> room_gauges_gz"
    by (simp_all add: room_gauges_def room_gauges_gz_def)
  have h3: "map_of ?l ''room'' = Some ''W1N1''"
    by simp
  have h4: "fetch_gz ?e = Returns (Inr (stats_tick 8 []))"
    by (rule fetch_gz_spec [OF example_env_gz_fields(1) example_env_gz_fields(2)])
       (simp add: spec_norooms del: append.simps)
  have h5: "''W1N1'' \<notin> fst ` set (Rooms_gz (stats_tick 8 []))"
    by (simp add: stats_tick_def)
  note t = absent_room_has_no_series [of creeps env_no_rooms account_example orders_example "[]"
      "''W1N1''" ?l world_W1N1 ?e "stats_tick 8 []" world_W1N1]
  from t env_no_rooms_succeeds h1 h2 h3
  have c1: "gauges (store (updateStats env_no_rooms world_W1N1)) creeps ?l = None"
    by blast
  from t h2 h3 h4 h5
  have c2: "\<exists>w''. updateStats_gz ?e world_W1N1 = Returns w'' \<and> gauges (store w'') creeps ?l = None"
    by blast
  show ?thesis
    using h0 env_no_rooms_succeeds h1 h2 h3 h4 h5 c1 c2 by (intro conjI)
qed

text \<open>
  Claim C3. When a fetch of the cycle returns an error (the account summary, the market
  orders or the segment of a configured shard, at the transport or at a decoder), the
  store after the cycle is the store before it: no gauge is reset or written and the
  histogram gets no observation. The cycle prints one line.
\<close>

theorem failed_cycle_keeps_store:
  fixes env :: "('f::zero) env"
  assumes "cycle_fails env"
  shows "store (updateStats env w) = store w \<and> (\<exists>err. stdout (updateStats env w) = stdout w @ [err])"
  using store_kept_on_failure(1,3) [OF assms] by blast

theorem failed_cycle_keeps_store_witness:
  "cycle_fails env_failing
   \<and> store (updateStats env_failing world_W1N1) = store world_W1N1
   \<and> (\<exists>err. stdout (updateStats env_failing world_W1N1) = stdout world_W1N1 @ [err])"
  using failed_cycle_keeps_store [OF env_failing_fails, of world_W1N1] env_failing_fails by blast

text \<open>
  Claim C4 fails on the code. A response whose \<^verbatim>\<open>data\<close> is the marker followed by the
  base64 text of the gzip stream of the document \<^verbatim>\<open>{}\<close> decodes, without an error, to a
  \<^verbatim>\<open>Memory\<close> with an empty history; the index expression then panics, and the cycle
  neither prints nor returns.
\<close>

theorem empty_history_panics:
  "updateStats_gz (example_env_gz (''gz:'' @ base64_empty)) world_start
     = Panics ''runtime error: index out of range [-1]''"
  by (simp add: updateStats_gz_fetch fetch_empty del: append.simps)

text \<open>
  Claim C5. For a response whose \<^verbatim>\<open>data\<close> the decoder of the specification is defined on
  (marker stripped if present, base64, gzip, JSON, a history with an element), the code
  takes as current snapshot exactly what that decoder takes, the last element of the
  history, and publishes the calls of that snapshot alone.
\<close>

theorem compressed_history_decoded:
  assumes "client_Do_gz env (memory_url env) (token_gz env) = Inr body"
    and "decode_MemoryResponse_gz env body = Inr memoryResponse"
    and "decode_history_spec env (Data_gz memoryResponse) = Some stats"
  shows "current_stats env (Data_gz memoryResponse) = Returns (Inr stats)
     \<and> updateStats_gz env w
         = Returns (w\<lparr>store := exec (publish_gz env stats) (store w),
                      requests := requests w @ [memory_url env]\<rparr>)"
  using fetch_gz_spec [OF assms] current_stats_spec [OF assms(3)]
  by (simp add: updateStats_gz_fetch)

theorem compressed_history_decoded_witness:
  "client_Do_gz (example_env_gz (''gz:'' @ base64_norooms))
      (memory_url (example_env_gz (''gz:'' @ base64_norooms)))
      (token_gz (example_env_gz (''gz:'' @ base64_norooms)))
     = Inr (memory_body (''gz:'' @ base64_norooms))
   \<and> decode_MemoryResponse_gz (example_env_gz (''gz:'' @ base64_norooms))
       (memory_body (''gz:'' @ base64_norooms))
     = Inr \<lparr>Ok_gz = 1, Data_gz = ''gz:'' @ base64_norooms\<rparr>
   \<and> decode_history_spec (example_env_gz (''gz:'' @ base64_norooms)) (''gz:'' @ base64_norooms)
     = Some (stats_tick 8 [])
   \<and> Stats_History memory_norooms = [stats_tick 7 [(''W1N1'', room_W1N1)], stats_tick 8 []]
   \<and> current_stats (example_env_gz (''gz:'' @ base64_norooms)) (''gz:'' @ base64_norooms)
     = Returns (Inr (stats_tick 8 []))"
proof -
  let ?e = "example_env_gz (''gz:'' @ base64_norooms)"
  have d: "Data_gz \<lparr>Ok_gz = 1, Data_gz = ''gz:'' @ base64_norooms\<rparr> = ''gz:'' @ base64_norooms"
    by simp
  note t = compressed_history_decoded [OF example_env_gz_fields(1) example_env_gz_fields(2),
      of "''gz:'' @ base64_norooms" "stats_tick 8 []" world_start, unfolded d, OF spec_norooms]
  from t have "current_stats ?e (''gz:'' @ base64_norooms) = Returns (Inr (stats_tick 8 []))"
    by (rule conjunct1)
  moreover have "Stats_History memory_norooms = [stats_tick 7 [(''W1N1'', room_W1N1)], stats_tick 8 []]"
    by (simp add: memory_norooms_def)
  ultimately show ?thesis
    using example_env_gz_fields(1,2) [of "''gz:'' @ base64_norooms"] spec_norooms by (intro conjI)
qed

text \<open>
  Claim C6. A memory whose history ends with a snapshot, encoded as the specification
  says (JSON, gzip, base64, with or without the marker \<^verbatim>\<open>gz:\<close>), decodes to that
  snapshot, wherever the three library decoders invert the three encoders on the memory
  and the base64 text does not itself begin with the marker (the standard alphabet has no
  colon).
\<close>

theorem history_round_trip:
  assumes "base64_DecodeString env (encode (compress (marshal memory))) = Inr (compress (marshal memory))"
    and "gzip_NewReader env (compress (marshal memory)) = Inr r"
    and "decode_Memory env r = Inr memory"
    and "\<not> HasPrefix (encode (compress (marshal memory))) ''gz:''"
    and "Stats_History memory = earlier @ [stats]"
  shows "current_stats env (encode_history marshal compress encode True memory) = Returns (Inr stats)
     \<and> current_stats env (encode_history marshal compress encode False memory) = Returns (Inr stats)"
  using current_stats_encoded [where encode = encode and compress = compress and marshal = marshal
      and memory = memory and env = env, OF assms]
  by blast

theorem history_round_trip_witness:
  "base64_DecodeString (example_env_gz []) (example_encode (example_compress (example_marshal memory_norooms)))
     = Inr (example_compress (example_marshal memory_norooms))
   \<and> gzip_NewReader (example_env_gz []) (example_compress (example_marshal memory_norooms)) = Inr doc_norooms
   \<and> decode_Memory (example_env_gz []) doc_norooms = Inr memory_norooms
   \<and> \<not> HasPrefix (example_encode (example_compress (example_marshal memory_norooms))) ''gz:''
   \<and> Stats_History memory_norooms = [stats_tick 7 [(''W1N1'', room_W1N1)]] @ [stats_tick 8 []]
   \<and> encode_history example_marshal example_compress example_encode True memory_norooms
     = ''gz:'' @ base64_norooms
   \<and> current_stats (example_env_gz [])
        (encode_history example_marshal example_compress example_encode True memory_norooms)
     = Returns (Inr (stats_tick 8 []))
   \<and> current_stats (example_env_gz [])
        (encode_history example_marshal example_compress example_encode False memory_norooms)
     = Returns (Inr (stats_tick 8 []))"
proof -
  have h1: "base64_DecodeString (example_env_gz [])
      (example_encode (example_compress (example_marshal memory_norooms)))
     = Inr (example_compress (example_marshal memory_norooms))"
    by (simp add: example_encoders example_env_gz_fields)
  have h2: "gzip_NewReader (example_env_gz []) (example_compress (example_marshal memory_norooms))
     = Inr doc_norooms"
    by (simp add: example_encoders example_env_gz_fields)
  have h3: "decode_Memory (example_env_gz []) doc_norooms = Inr memory_norooms"
    by (simp add: example_env_gz_fields)
  have h4: "\<not> HasPrefix (example_encode (example_compress (example_marshal memory_norooms))) ''gz:''"
    by (simp add: example_encoders base64_no_marker)
  have h5: "Stats_History memory_norooms = [stats_tick 7 [(''W1N1'', room_W1N1)]] @ [stats_tick 8 []]"
    by (simp add: memory_norooms_def)
  have h6: "encode_history example_marshal example_compress example_encode True memory_norooms
     = ''gz:'' @ base64_norooms"
    by (simp add: encode_history_def example_encoders)
  note t = history_round_trip [where encode = example_encode and compress = example_compress
      and marshal = example_marshal and memory = memory_norooms and env = "example_env_gz []",
      OF h1 h2 h3 h4 h5]
  show ?thesis
    using h1 h2 h3 h4 h5 h6 t by (intro conjI) (elim conjE; assumption)+
qed

text \<open>
  Claim C7. In a cycle that reaches the store, the calls on the gauge
  \<^verbatim>\<open>market_orders\<close> are its reset followed, for every order of the fetched response in
  the order of the loops, by exactly four writes: one for each of the metric labels
  \<^verbatim>\<open>price\<close>, \<^verbatim>\<open>amount\<close>, \<^verbatim>\<open>remainingAmount\<close> and \<^verbatim>\<open>totalAmount\<close>, labelled with the
  order's shard, room name, resource type and order type, and carrying the field of that
  name.
\<close>

theorem market_order_four_writes:
  "[c \<leftarrow> publish env authMe orders statsMap. on c = Some marketOrders]
     = Reset marketOrders
       # concat (map (\<lambda>(shard, os). concat (map (\<lambda>order.
           map (\<lambda>(metric, field).
                  WithSet marketOrders [(''shard'', shard), (''room'', RoomName order),
                    (''type'', ResourceType order), (''order_type'', Type order), (''metric'', metric)]
                    (field order))
             [(''price'', Price), (''amount'', Amount), (''remainingAmount'', RemainingAmount),
              (''totalAmount'', TotalAmount)]) os)) (Shards orders))"
proof -
  let ?P = "\<lambda>c::'a call. on c = Some marketOrders"
  have r: "filter ?P resets = [Reset marketOrders]"
    by (simp add: resets_def)
  have a: "filter ?P (cpuShard_calls authMe) = []"
    by (rule filter_on_none) (auto dest: on_cpuShard_calls)
  have b: "filter ?P (resources_calls authMe) = []"
    by (rule filter_on_none) (auto dest: on_resources_calls)
  have m: "filter ?P (marketOrders_calls orders) = marketOrders_calls orders"
    by (rule filter_on_all) (auto dest: on_marketOrders_calls)
  have s: "filter ?P (shards_calls (shards env) statsMap) = []"
    by (rule filter_on_none) (auto dest: shards_calls_not_market)
  have e: "marketOrders_calls orders
     = concat (map (\<lambda>(shard, os). concat (map (\<lambda>order.
           map (\<lambda>(metric, field).
                  WithSet marketOrders [(''shard'', shard), (''room'', RoomName order),
                    (''type'', ResourceType order), (''order_type'', Type order), (''metric'', metric)]
                    (field order))
             [(''price'', Price), (''amount'', Amount), (''remainingAmount'', RemainingAmount),
              (''totalAmount'', TotalAmount)]) os)) (Shards orders))"
  proof -
    have "\<And>shard. order_calls shard = (\<lambda>order::'a MarketOrder.
           map (\<lambda>(metric, field).
                  WithSet marketOrders [(''shard'', shard), (''room'', RoomName order),
                    (''type'', ResourceType order), (''order_type'', Type order), (''metric'', metric)]
                    (field order))
             [(''price'', Price), (''amount'', Amount), (''remainingAmount'', RemainingAmount),
              (''totalAmount'', TotalAmount)])"
      by (rule ext) (simp add: order_calls_def)
    then show ?thesis by (simp add: marketOrders_calls_def)
  qed
  have "filter ?P (publish env authMe orders statsMap) = Reset marketOrders # marketOrders_calls orders"
    by (simp add: publish_def r a b m s)
  then show ?thesis using e by simp
qed

text \<open>
  Claim C8, as the code has it. The cycle asks for the account summary, the market orders
  and the segments of the shards in the configured order, and stops at the first fetch that
  returns an error: the fetches before it have been made, the fetches after it are not
  made, one line is printed and the store is left as it was.
\<close>

theorem abort_at_first_failure:
  fixes env :: "('f::zero) env"
  shows "requests (updateStats env w) = requests w @ fetched_urls env
     \<and> (cycle_fails env \<longrightarrow>
          store (updateStats env w) = store w \<and> length (stdout (updateStats env w)) = Suc (length (stdout w)))"
proof -
  have "cycle_fails env \<Longrightarrow> length (stdout (updateStats env w)) = Suc (length (stdout w))"
    using store_kept_on_failure(3) [of env w] by auto
  then show ?thesis
    using requests_updateStats [of env w] store_kept_on_failure(1) [of env w] by blast
qed

theorem abort_at_first_failure_witness:
  "cycle_fails env_failing
   \<and> requests (updateStats env_failing world_start) = requests world_start @ fetched_urls env_failing
   \<and> store (updateStats env_failing world_start) = store world_start
   \<and> length (stdout (updateStats env_failing world_start)) = Suc (length (stdout world_start))"
  using abort_at_first_failure [of env_failing world_start] env_failing_fails by blast

text \<open>
  Claim C8 as stated fails: with the shards \<^verbatim>\<open>shard0\<close> and \<^verbatim>\<open>shard1\<close> configured and a
  segment of \<^verbatim>\<open>shard0\<close> that is not JSON, the cycle never asks for the segment of
  \<^verbatim>\<open>shard1\<close>, whose fetch would succeed.
\<close>

theorem sibling_fetch_skipped_counterexample:
  "fst (getStatsFromMemorySegment env_failing ''shard0'')
     = Inl ''invalid character h looking for beginning of value''
   \<and> fst (getStatsFromMemorySegment env_failing ''shard1'') = Inr zero_Stats
   \<and> shards env_failing = [''shard0'', ''shard1'']
   \<and> requests (updateStats env_failing world_start)
       = [''https://screeps.com/api/auth/me'', ''https://screeps.com/api/game/market/my-orders'',
          ''https://screeps.com/api/user/memory-segment?segment=0&shard=shard0'']
   \<and> memory_segment_url env_failing ''shard1'' \<notin> set (requests (updateStats env_failing world_start))"
proof -
  have r: "requests (updateStats env_failing world_start)
       = [''https://screeps.com/api/auth/me'', ''https://screeps.com/api/game/market/my-orders'',
          ''https://screeps.com/api/user/memory-segment?segment=0&shard=shard0'']"
    by (simp add: requests_updateStats env_failing_urls world_start_def)
  have "memory_segment_url env_failing ''shard1''
      = ''https://screeps.com/api/user/memory-segment?segment=0&shard=shard1''"
    by (simp add: example_defs)
  then have "memory_segment_url env_failing ''shard1'' \<notin> set (requests (updateStats env_failing world_start))"
    unfolding r by simp
  then show ?thesis
    using r env_failing_shard0 env_failing_shard1 env_failing_shards by blast
qed

text \<open>
  Claim C9. The histogram gets the duration of a cycle when no fetch of the cycle returned an
  error, and gets nothing when one did.
\<close>

theorem duration_observed_on_success_only:
  fixes env :: "('f::zero) env"
  shows "histogram (store (updateStats env w))
     = histogram (store w) @ (if cycle_fails env then [] else [since_start env])"
  using store_kept_on_failure(2) [of env w] histogram_on_success(1) [of env w] by simp

theorem duration_observed_on_success_only_witness:
  "cycle_fails env_failing
   \<and> histogram (store (updateStats env_failing world_start)) = histogram (store world_start)
   \<and> \<not> cycle_fails env_no_rooms
   \<and> histogram (store (updateStats env_no_rooms world_start))
       = histogram (store world_start) @ [since_start env_no_rooms]"
  using duration_observed_on_success_only [of env_failing world_start]
    duration_observed_on_success_only [of env_no_rooms world_start]
    env_failing_fails env_no_rooms_succeeds
  by simp

text \<open>
  Claim C10. The writes for an order do not depend on its \<^verbatim>\<open>active\<close> flag: changing the
  flag of one order leaves its four writes as they are, and changing the flags of any
  orders of the response leaves all calls of the cycle as they are.
\<close>

theorem active_flag_ignored:
  "order_calls shard (order\<lparr>Active := b\<rparr>) = order_calls shard order
   \<and> publish env authMe
       (orders\<lparr>Shards := map (\<lambda>(shard, os). (shard, map (\<lambda>order. order\<lparr>Active := f shard order\<rparr>) os))
          (Shards orders)\<rparr>) statsMap
     = publish env authMe orders statsMap"
proof -
  have o: "order_calls shard (order\<lparr>Active := b\<rparr>) = order_calls shard order"
    by (simp add: order_calls_def)
  have "marketOrders_calls
       (orders\<lparr>Shards := map (\<lambda>(shard, os). (shard, map (\<lambda>order. order\<lparr>Active := f shard order\<rparr>) os))
          (Shards orders)\<rparr>) = marketOrders_calls orders"
  proof -
    have "\<And>shard. (\<lambda>order. order_calls shard (order\<lparr>Active := f shard order\<rparr>)) = order_calls shard"
      by (rule ext) (simp add: order_calls_def)
    then show ?thesis by (simp add: marketOrders_calls_def comp_def case_prod_unfold)
  qed
  then show ?thesis by (simp add: publish_def o)
qed

end
